theory Spec2Isabelle
  imports Main "HOL-Library.Word" "HOL-Library.Char_ord" "HOL-Library.List_Lexorder"
begin

section \<open>Bytes, errors and call outcomes\<close>

text \<open>
  A Go \<^verbatim>\<open>string\<close> is an immutable sequence of bytes and a \<^verbatim>\<open>[]byte\<close> a mutable
  one; a claim about the content of either is a claim about a list of bytes. Names, media
  types, digests and references, which the code only stores and compares, are HOL strings.
\<close>

type_synonym byte = "8 word"
type_synonym bytes = "byte list"

datatype error =
    errorString string
  | SyntaxError
  | UnmarshalTypeError
  | ErrNotFound
  | ManifestError
  | TransportError string

text \<open>
  \<^verbatim>\<open>errorString\<close> is the value of \<^verbatim>\<open>errors.New\<close>, with its message;
  \<^verbatim>\<open>SyntaxError\<close> and \<^verbatim>\<open>UnmarshalTypeError\<close> are the two errors of
  \<^verbatim>\<open>json.Unmarshal\<close>; the last three are what the registry copy reports: a reference
  or blob that is not there, a manifest that does not decode, and everything the network
  and the remote decide (authentication, connection, rejection).

  A call of a Go function either returns its results or panics.
\<close>

datatype 'a outcome = Panics | Returns 'a

section \<open>The package (spec.go, lines 14 to 31)\<close>

definition configMediaType :: string where
  "configMediaType = ''application/ebpf.oci.image.config.v1+json''"

definition eBPFMediaType :: string where
  "eBPFMediaType = ''binary/ebpf.solo.io.v1''"

definition ebpfFileName :: string where
  "ebpfFileName = ''program.o''"

definition configName :: string where
  "configName = ''config.json''"

record EbpfConfig =
  Info :: bytes

record EbpfPackage =
  ProgramFileBytes :: bytes
  EbpfConfig :: EbpfConfig

section \<open>unicode/utf8 and unicode/utf16\<close>

text \<open>
  \<^verbatim>\<open>utf8.DecodeRune\<close> returns the first code point of its argument and the number of
  bytes that hold it, and \<^verbatim>\<open>(RuneError, 1)\<close> for a byte that starts no well-formed
  encoding (overlong forms, surrogates and values above U+10FFFF are not well-formed). The
  shifts and masks of the Go code are written as arithmetic on the byte values:
  \<^verbatim>\<open>rune(p0&0x1F)<<6 | rune(b1&0x3F)\<close> is \<open>(p0 - 0xC0) * 64 + (b1 - 0x80)\<close> for a
  lead byte from 0xC0 and a continuation byte.
\<close>

definition RuneError :: nat where
  "RuneError = 0xFFFD"

definition cont :: "byte \<Rightarrow> bool" where
  "cont b = (0x80 \<le> unat b \<and> unat b \<le> 0xBF)"

definition accept3 :: "byte \<Rightarrow> byte \<Rightarrow> bool" where
  "accept3 p0 b1 =
     ((if unat p0 = 0xE0 then 0xA0 else 0x80) \<le> unat b1
      \<and> unat b1 \<le> (if unat p0 = 0xED then 0x9F else 0xBF))"

definition accept4 :: "byte \<Rightarrow> byte \<Rightarrow> bool" where
  "accept4 p0 b1 =
     ((if unat p0 = 0xF0 then 0x90 else 0x80) \<le> unat b1
      \<and> unat b1 \<le> (if unat p0 = 0xF4 then 0x8F else 0xBF))"

definition rune2 :: "byte \<Rightarrow> byte \<Rightarrow> nat" where
  "rune2 p0 b1 = (unat p0 - 0xC0) * 64 + (unat b1 - 0x80)"

definition rune3 :: "byte \<Rightarrow> byte \<Rightarrow> byte \<Rightarrow> nat" where
  "rune3 p0 b1 b2 = ((unat p0 - 0xE0) * 64 + (unat b1 - 0x80)) * 64 + (unat b2 - 0x80)"

definition rune4 :: "byte \<Rightarrow> byte \<Rightarrow> byte \<Rightarrow> byte \<Rightarrow> nat" where
  "rune4 p0 b1 b2 b3 =
     (((unat p0 - 0xF0) * 64 + (unat b1 - 0x80)) * 64 + (unat b2 - 0x80)) * 64
       + (unat b3 - 0x80)"

fun DecodeRune :: "bytes \<Rightarrow> nat \<times> nat" where
  "DecodeRune [] = (RuneError, 0)"
| "DecodeRune (p0 # p) =
     (if unat p0 < 0x80 then (unat p0, 1)
      else if unat p0 < 0xC2 \<or> 0xF4 < unat p0 then (RuneError, 1)
      else if unat p0 < 0xE0 then
        (case p of
           b1 # _ \<Rightarrow> if cont b1 then (rune2 p0 b1, 2) else (RuneError, 1)
         | _ \<Rightarrow> (RuneError, 1))
      else if unat p0 < 0xF0 then
        (case p of
           b1 # b2 # _ \<Rightarrow>
             if accept3 p0 b1 \<and> cont b2 then (rune3 p0 b1 b2, 3) else (RuneError, 1)
         | _ \<Rightarrow> (RuneError, 1))
      else
        (case p of
           b1 # b2 # b3 # _ \<Rightarrow>
             if accept4 p0 b1 \<and> cont b2 \<and> cont b3 then (rune4 p0 b1 b2 b3, 4)
             else (RuneError, 1)
         | _ \<Rightarrow> (RuneError, 1)))"

text \<open>
  \<^verbatim>\<open>utf8.EncodeRune\<close>: the UTF-8 bytes of a code point; a surrogate or a value above
  U+10FFFF is written as U+FFFD.
\<close>

definition EncodeRune :: "nat \<Rightarrow> bytes" where
  "EncodeRune r =
     (if r \<le> 0x7F then [of_nat r]
      else if r \<le> 0x7FF then [of_nat (0xC0 + r div 64), of_nat (0x80 + r mod 64)]
      else if 0x10FFFF < r \<or> (0xD800 \<le> r \<and> r \<le> 0xDFFF) then [0xEF, 0xBF, 0xBD]
      else if r \<le> 0xFFFF then
        [of_nat (0xE0 + r div 4096), of_nat (0x80 + (r div 64) mod 64), of_nat (0x80 + r mod 64)]
      else
        [of_nat (0xF0 + r div 262144), of_nat (0x80 + (r div 4096) mod 64),
         of_nat (0x80 + (r div 64) mod 64), of_nat (0x80 + r mod 64)])"

definition IsSurrogate :: "nat \<Rightarrow> bool" where
  "IsSurrogate r = (0xD800 \<le> r \<and> r < 0xE000)"

text \<open>\<^verbatim>\<open>utf16.DecodeRune\<close>: the code point of a surrogate pair, U+FFFD for anything else.\<close>

definition utf16_DecodeRune :: "nat \<Rightarrow> nat \<Rightarrow> nat" where
  "utf16_DecodeRune r1 r2 =
     (if 0xD800 \<le> r1 \<and> r1 < 0xDC00 \<and> 0xDC00 \<le> r2 \<and> r2 < 0xE000
      then (r1 - 0xD800) * 1024 + (r2 - 0xDC00) + 0x10000
      else RuneError)"

text \<open>
  What a string holds once every byte that starts no well-formed encoding is replaced by
  the encoding of U+FFFD, and whether nothing had to be replaced (\<^verbatim>\<open>utf8.Valid\<close>).
\<close>

function coerceUTF8 :: "bytes \<Rightarrow> bytes" where
  "coerceUTF8 [] = []"
| "coerceUTF8 (b # s) =
     (case DecodeRune (b # s) of
        (c, sz) \<Rightarrow>
          if c = RuneError \<and> sz = 1 then [0xEF, 0xBF, 0xBD] @ coerceUTF8 s
          else take sz (b # s) @ coerceUTF8 (drop (sz - 1) s))"
  by pat_completeness auto
termination
  by (relation "measure length") auto

function Valid :: "bytes \<Rightarrow> bool" where
  "Valid [] = True"
| "Valid (b # s) =
     (case DecodeRune (b # s) of
        (c, sz) \<Rightarrow>
          if c = RuneError \<and> sz = 1 then False else Valid (drop (sz - 1) s))"
  by pat_completeness auto
termination
  by (relation "measure length") auto

section \<open>encoding/json: Marshal of an EbpfConfig\<close>

text \<open>
  \<^verbatim>\<open>json.Marshal\<close> writes a struct as an object of its exported fields under their tag
  names, here the one member \<^verbatim>\<open>"info"\<close>, without white space. A string value is
  written by \<^verbatim>\<open>appendString\<close> with HTML escaping on: the quote and the backslash are
  escaped with a backslash, the control characters get their short escape or
  \<^verbatim>\<open>\u00XX\<close>, the characters \<^verbatim>\<open><\<close>, \<^verbatim>\<open>>\<close> and \<^verbatim>\<open>&\<close> and the code
  points U+2028 and U+2029 are written as \<^verbatim>\<open>\uXXXX\<close>, every byte that starts no
  well-formed UTF-8 encoding is written as \<^verbatim>\<open>\ufffd\<close>, and everything else is copied.
  (Toolchains before Go 1.22 write backspace and form feed as \<^verbatim>\<open>\u0008\<close> and
  \<^verbatim>\<open>\u000c\<close>; the decoder reads both forms as the same byte.)
\<close>

definition hex :: "nat \<Rightarrow> byte" where
  "hex n = (if n < 10 then of_nat (0x30 + n) else of_nat (0x57 + n))"

definition htmlSafe :: "byte \<Rightarrow> bool" where
  "htmlSafe b =
     (0x20 \<le> unat b \<and> unat b < 0x80
      \<and> b \<noteq> 0x22 \<and> b \<noteq> 0x26 \<and> b \<noteq> 0x3C \<and> b \<noteq> 0x3E \<and> b \<noteq> 0x5C)"

definition escapeByte :: "byte \<Rightarrow> bytes" where
  "escapeByte b =
     (if b = 0x5C \<or> b = 0x22 then [0x5C, b]
      else if b = 0x08 then [0x5C, 0x62]
      else if b = 0x0C then [0x5C, 0x66]
      else if b = 0x0A then [0x5C, 0x6E]
      else if b = 0x0D then [0x5C, 0x72]
      else if b = 0x09 then [0x5C, 0x74]
      else [0x5C, 0x75, 0x30, 0x30, hex (unat b div 16), hex (unat b mod 16)])"

function appendString_loop :: "bytes \<Rightarrow> bytes" where
  "appendString_loop [] = []"
| "appendString_loop (b # src) =
     (if unat b < 0x80 then
        (if htmlSafe b then [b] else escapeByte b) @ appendString_loop src
      else
        (case DecodeRune (b # src) of
           (c, sz) \<Rightarrow>
             if c = RuneError \<and> sz = 1 then
               [0x5C, 0x75, 0x66, 0x66, 0x66, 0x64] @ appendString_loop src
             else if c = 0x2028 \<or> c = 0x2029 then
               [0x5C, 0x75, 0x32, 0x30, 0x32, hex (c mod 16)]
                 @ appendString_loop (drop (sz - 1) src)
             else take sz (b # src) @ appendString_loop (drop (sz - 1) src)))"
  by pat_completeness auto
termination
  by (relation "measure length") auto

definition appendString :: "bytes \<Rightarrow> bytes" where
  "appendString src = [0x22] @ appendString_loop src @ [0x22]"

text \<open>The bytes of \<^verbatim>\<open>{"info":\<close> and of the name \<^verbatim>\<open>info\<close>.\<close>

definition info_name :: bytes where
  "info_name = [0x69, 0x6E, 0x66, 0x6F]"

definition json_Marshal :: "EbpfConfig \<Rightarrow> bytes \<times> error option" where
  "json_Marshal v =
     ([0x7B, 0x22] @ info_name @ [0x22, 0x3A] @ appendString (Info v) @ [0x7D], None)"

section \<open>encoding/json: Unmarshal into an EbpfConfig\<close>

text \<open>
  \<^verbatim>\<open>json.Unmarshal\<close> first checks that its input is one JSON value with nothing but
  white space around it (\<^verbatim>\<open>checkValid\<close>, a syntax error otherwise), then stores the
  value. The check is modelled in two layers with the same language: the literals, numbers
  and punctuation are cut into tokens, and a pushdown automaton with the states of Go's
  scanner reads the tokens and builds the value.
\<close>

datatype token =
    TLBrace | TRBrace | TLBrack | TRBrack | TColon | TComma
  | TString bytes
  | TNumber bytes
  | TTrue | TFalse | TNull

definition isSpace :: "byte \<Rightarrow> bool" where
  "isSpace c = (c = 0x20 \<or> c = 0x09 \<or> c = 0x0D \<or> c = 0x0A)"

definition isDigit :: "byte \<Rightarrow> bool" where
  "isDigit c = (0x30 \<le> unat c \<and> unat c \<le> 0x39)"

definition hexval :: "byte \<Rightarrow> nat option" where
  "hexval c =
     (if 0x30 \<le> unat c \<and> unat c \<le> 0x39 then Some (unat c - 0x30)
      else if 0x61 \<le> unat c \<and> unat c \<le> 0x66 then Some (unat c - 0x57)
      else if 0x41 \<le> unat c \<and> unat c \<le> 0x46 then Some (unat c - 0x37)
      else None)"

definition isHex :: "byte \<Rightarrow> bool" where
  "isHex c = (hexval c \<noteq> None)"

text \<open>
  The number of bytes of a string literal between its opening quote and its closing one,
  for the bytes after the opening quote; none when the literal is not closed, holds a
  control character, or has an escape that the scanner does not know.
\<close>

function string_span :: "bytes \<Rightarrow> nat option" where
  "string_span [] = None"
| "string_span (c # cs) =
     (if c = 0x22 then Some 0
      else if c = 0x5C then
        (case cs of
           [] \<Rightarrow> None
         | e # es \<Rightarrow>
             if e = 0x62 \<or> e = 0x66 \<or> e = 0x6E \<or> e = 0x72 \<or> e = 0x74
                \<or> e = 0x5C \<or> e = 0x2F \<or> e = 0x22 then
               (case string_span es of None \<Rightarrow> None | Some n \<Rightarrow> Some (n + 2))
             else if e = 0x75 \<and> 4 \<le> length es \<and> list_all isHex (take 4 es) then
               (case string_span (drop 4 es) of None \<Rightarrow> None | Some n \<Rightarrow> Some (n + 6))
             else None)
      else if unat c < 0x20 then None
      else (case string_span cs of None \<Rightarrow> None | Some n \<Rightarrow> Some (n + 1)))"
  by pat_completeness auto
termination
  by (relation "measure length") auto

text \<open>
  The number of bytes of the number that starts its argument: an optional minus, then
  \<^verbatim>\<open>0\<close> or a digit from 1 to 9 and more digits, then an optional fraction, then an
  optional exponent.
\<close>

definition digits_span :: "bytes \<Rightarrow> nat" where
  "digits_span cs = length (takeWhile isDigit cs)"

definition frac_span :: "bytes \<Rightarrow> nat option" where
  "frac_span cs =
     (case cs of
        [] \<Rightarrow> Some 0
      | c # r \<Rightarrow>
          if c = 0x2E then (if digits_span r = 0 then None else Some (1 + digits_span r))
          else Some 0)"

definition exp_span :: "bytes \<Rightarrow> nat option" where
  "exp_span cs =
     (case cs of
        [] \<Rightarrow> Some 0
      | c # r \<Rightarrow>
          if c = 0x65 \<or> c = 0x45 then
            (let sign = (case r of [] \<Rightarrow> 0 | s # _ \<Rightarrow> if s = 0x2B \<or> s = 0x2D then 1 else 0)
             in if digits_span (drop sign r) = 0 then None
                else Some (1 + sign + digits_span (drop sign r)))
          else Some 0)"

definition number_span :: "bytes \<Rightarrow> nat option" where
  "number_span cs =
     (let neg = (case cs of [] \<Rightarrow> 0 | c # _ \<Rightarrow> if c = 0x2D then 1 else 0) in
      case drop neg cs of
        [] \<Rightarrow> None
      | d # r \<Rightarrow>
          if \<not> isDigit d then None
          else
            (let whole = (if d = 0x30 then 1 else 1 + digits_span r) in
             case frac_span (drop whole (d # r)) of
               None \<Rightarrow> None
             | Some f \<Rightarrow>
                 (case exp_span (drop (whole + f) (d # r)) of
                    None \<Rightarrow> None
                  | Some e \<Rightarrow> Some (neg + whole + f + e))))"

function tokenize :: "bytes \<Rightarrow> token list option" where
  "tokenize [] = Some []"
| "tokenize (c # cs) =
     (if isSpace c then tokenize cs
      else if c = 0x7B then
        (case tokenize cs of None \<Rightarrow> None | Some ts \<Rightarrow> Some (TLBrace # ts))
      else if c = 0x7D then
        (case tokenize cs of None \<Rightarrow> None | Some ts \<Rightarrow> Some (TRBrace # ts))
      else if c = 0x5B then
        (case tokenize cs of None \<Rightarrow> None | Some ts \<Rightarrow> Some (TLBrack # ts))
      else if c = 0x5D then
        (case tokenize cs of None \<Rightarrow> None | Some ts \<Rightarrow> Some (TRBrack # ts))
      else if c = 0x3A then
        (case tokenize cs of None \<Rightarrow> None | Some ts \<Rightarrow> Some (TColon # ts))
      else if c = 0x2C then
        (case tokenize cs of None \<Rightarrow> None | Some ts \<Rightarrow> Some (TComma # ts))
      else if c = 0x22 then
        (case string_span cs of
           None \<Rightarrow> None
         | Some n \<Rightarrow>
             (case tokenize (drop (Suc n) cs) of
                None \<Rightarrow> None
              | Some ts \<Rightarrow> Some (TString (take n cs) # ts)))
      else if c = 0x2D \<or> isDigit c then
        (case number_span (c # cs) of
           None \<Rightarrow> None
         | Some n \<Rightarrow>
             (case tokenize (drop (n - 1) cs) of
                None \<Rightarrow> None
              | Some ts \<Rightarrow> Some (TNumber (take n (c # cs)) # ts)))
      else if c = 0x74 \<and> take 3 cs = [0x72, 0x75, 0x65] then
        (case tokenize (drop 3 cs) of None \<Rightarrow> None | Some ts \<Rightarrow> Some (TTrue # ts))
      else if c = 0x66 \<and> take 4 cs = [0x61, 0x6C, 0x73, 0x65] then
        (case tokenize (drop 4 cs) of None \<Rightarrow> None | Some ts \<Rightarrow> Some (TFalse # ts))
      else if c = 0x6E \<and> take 3 cs = [0x75, 0x6C, 0x6C] then
        (case tokenize (drop 3 cs) of None \<Rightarrow> None | Some ts \<Rightarrow> Some (TNull # ts))
      else None)"
  by pat_completeness auto
termination
  by (relation "measure length") auto

text \<open>
  The values, with string literals and keys as they stand between their quotes, and the
  automaton. Its states are those of Go's scanner between two tokens; its stack holds one
  frame for each array or object that is open, with what has been read of it. The scanner
  refuses the value that would open more than 10000 of them.
\<close>

datatype json =
    JNull
  | JBool bool
  | JNumber bytes
  | JString bytes
  | JArray "json list"
  | JObject "(bytes \<times> json) list"

datatype frame =
    parseArrayValue "json list"
  | parseObject "(bytes \<times> json) list" "bytes option"

datatype scan_state =
    stateBeginValue
  | stateBeginValueOrEmpty
  | stateBeginStringOrEmpty
  | stateBeginString
  | stateEndValue
  | stateEndTop json
  | stateError

definition maxNestingDepth :: nat where
  "maxNestingDepth = 10000"

fun endValue :: "json \<Rightarrow> frame list \<Rightarrow> scan_state \<times> frame list" where
  "endValue v [] = (stateEndTop v, [])"
| "endValue v (parseArrayValue es # st) = (stateEndValue, parseArrayValue (es @ [v]) # st)"
| "endValue v (parseObject ms (Some k) # st) =
     (stateEndValue, parseObject (ms @ [(k, v)]) None # st)"
| "endValue v (parseObject ms None # st) = (stateError, parseObject ms None # st)"

definition beginValue :: "token \<Rightarrow> frame list \<Rightarrow> scan_state \<times> frame list" where
  "beginValue t st =
     (case t of
        TLBrace \<Rightarrow>
          if length st + 1 \<le> maxNestingDepth
          then (stateBeginStringOrEmpty, parseObject [] None # st) else (stateError, st)
      | TLBrack \<Rightarrow>
          if length st + 1 \<le> maxNestingDepth
          then (stateBeginValueOrEmpty, parseArrayValue [] # st) else (stateError, st)
      | TString s \<Rightarrow> endValue (JString s) st
      | TNumber n \<Rightarrow> endValue (JNumber n) st
      | TTrue \<Rightarrow> endValue (JBool True) st
      | TFalse \<Rightarrow> endValue (JBool False) st
      | TNull \<Rightarrow> endValue JNull st
      | _ \<Rightarrow> (stateError, st))"

definition beginString :: "token \<Rightarrow> frame list \<Rightarrow> scan_state \<times> frame list" where
  "beginString t st =
     (case (t, st) of
        (TString k, parseObject ms None # st') \<Rightarrow> (stateEndValue, parseObject ms (Some k) # st')
      | _ \<Rightarrow> (stateError, st))"

definition step :: "scan_state \<times> frame list \<Rightarrow> token \<Rightarrow> scan_state \<times> frame list" where
  "step s t =
     (case s of
        (stateBeginValue, st) \<Rightarrow> beginValue t st
      | (stateBeginValueOrEmpty, st) \<Rightarrow>
          (case (t, st) of
             (TRBrack, parseArrayValue es # st') \<Rightarrow> endValue (JArray es) st'
           | _ \<Rightarrow> beginValue t st)
      | (stateBeginStringOrEmpty, st) \<Rightarrow>
          (case (t, st) of
             (TRBrace, parseObject ms None # st') \<Rightarrow> endValue (JObject ms) st'
           | _ \<Rightarrow> beginString t st)
      | (stateBeginString, st) \<Rightarrow> beginString t st
      | (stateEndValue, st) \<Rightarrow>
          (case (st, t) of
             (parseObject ms (Some k) # st', TColon) \<Rightarrow> (stateBeginValue, st)
           | (parseObject ms None # st', TComma) \<Rightarrow> (stateBeginString, st)
           | (parseObject ms None # st', TRBrace) \<Rightarrow> endValue (JObject ms) st'
           | (parseArrayValue es # st', TComma) \<Rightarrow> (stateBeginValue, st)
           | (parseArrayValue es # st', TRBrack) \<Rightarrow> endValue (JArray es) st'
           | _ \<Rightarrow> (stateError, st))
      | (stateEndTop v, st) \<Rightarrow> (stateError, st)
      | (stateError, st) \<Rightarrow> (stateError, st))"

definition checkValid :: "bytes \<Rightarrow> json option" where
  "checkValid data =
     (case tokenize data of
        None \<Rightarrow> None
      | Some ts \<Rightarrow>
          (case foldl step (stateBeginValue, []) ts of
             (stateEndTop v, _) \<Rightarrow> Some v
           | _ \<Rightarrow> None))"

text \<open>
  \<^verbatim>\<open>getu4\<close> reads \<^verbatim>\<open>\uXXXX\<close> at the start of its argument; \<^verbatim>\<open>unquoteBytes\<close>
  turns what stands between the quotes of a literal into the string it denotes. It
  re-encodes what it reads, so that a byte that starts no well-formed encoding comes out
  as U+FFFD, as does a surrogate escape without its partner. (The Go function first copies
  the longest prefix that needs no work; the loop below does the same to such a prefix.)
\<close>

definition getu4 :: "bytes \<Rightarrow> nat option" where
  "getu4 s =
     (if length s < 6 \<or> s ! 0 \<noteq> 0x5C \<or> s ! 1 \<noteq> 0x75 then None
      else
        (case (hexval (s ! 2), hexval (s ! 3), hexval (s ! 4), hexval (s ! 5)) of
           (Some a, Some b, Some c, Some d) \<Rightarrow> Some (((a * 16 + b) * 16 + c) * 16 + d)
         | _ \<Rightarrow> None))"

definition unescape :: "byte \<Rightarrow> byte option" where
  "unescape e =
     (if e = 0x22 \<or> e = 0x5C \<or> e = 0x2F \<or> e = 0x27 then Some e
      else if e = 0x62 then Some 0x08
      else if e = 0x66 then Some 0x0C
      else if e = 0x6E then Some 0x0A
      else if e = 0x72 then Some 0x0D
      else if e = 0x74 then Some 0x09
      else None)"

function unquoteBytes :: "bytes \<Rightarrow> bytes option" where
  "unquoteBytes [] = Some []"
| "unquoteBytes (c # s) =
     (if c = 0x5C then
        (case s of
           [] \<Rightarrow> None
         | e # r \<Rightarrow>
             if e = 0x75 then
               (case getu4 (c # s) of
                  None \<Rightarrow> None
                | Some rr \<Rightarrow>
                    if IsSurrogate rr then
                      (case getu4 (drop 5 s) of
                         None \<Rightarrow>
                           (case unquoteBytes (drop 5 s) of
                              None \<Rightarrow> None
                            | Some t \<Rightarrow> Some (EncodeRune RuneError @ t))
                       | Some rr1 \<Rightarrow>
                           if utf16_DecodeRune rr rr1 \<noteq> RuneError then
                             (case unquoteBytes (drop 11 s) of
                                None \<Rightarrow> None
                              | Some t \<Rightarrow> Some (EncodeRune (utf16_DecodeRune rr rr1) @ t))
                           else
                             (case unquoteBytes (drop 5 s) of
                                None \<Rightarrow> None
                              | Some t \<Rightarrow> Some (EncodeRune RuneError @ t)))
                    else
                      (case unquoteBytes (drop 5 s) of
                         None \<Rightarrow> None
                       | Some t \<Rightarrow> Some (EncodeRune rr @ t)))
             else
               (case unescape e of
                  None \<Rightarrow> None
                | Some d \<Rightarrow>
                    (case unquoteBytes r of None \<Rightarrow> None | Some t \<Rightarrow> Some (d # t))))
      else if c = 0x22 \<or> unat c < 0x20 then None
      else if unat c < 0x80 then
        (case unquoteBytes s of None \<Rightarrow> None | Some t \<Rightarrow> Some (c # t))
      else
        (case DecodeRune (c # s) of
           (rr, sz) \<Rightarrow>
             (case unquoteBytes (drop (sz - 1) s) of
                None \<Rightarrow> None
              | Some t \<Rightarrow> Some (EncodeRune rr @ t))))"
  by pat_completeness auto
termination
  by (relation "measure length") auto

text \<open>
  Storing the value. \<^verbatim>\<open>null\<close> stores nothing. Of an object, each member whose key is
  \<^verbatim>\<open>info\<close> in any letter case stores its value in \<^verbatim>\<open>Info\<close> when that value is a
  string, nothing when it is \<^verbatim>\<open>null\<close>, and is a type error otherwise; the other
  members are skipped. Any other value is a type error. The decoder goes on after a type
  error and returns the first one at the end, so the configuration can be partly filled
  when Unmarshal fails.
\<close>

definition toUpper :: "byte \<Rightarrow> byte" where
  "toUpper c = (if 0x61 \<le> unat c \<and> unat c \<le> 0x7A then c - 0x20 else c)"

definition foldsToInfo :: "bytes \<Rightarrow> bool" where
  "foldsToInfo key = (map toUpper key = [0x49, 0x4E, 0x46, 0x4F])"

definition saveError :: "error \<Rightarrow> error option \<Rightarrow> error option" where
  "saveError err saved = (case saved of None \<Rightarrow> Some err | Some e \<Rightarrow> Some e)"

fun object :: "(bytes \<times> json) list \<Rightarrow> EbpfConfig \<times> error option \<Rightarrow> EbpfConfig \<times> error option"
  where
  "object [] acc = acc"
| "object ((k, v) # ms) (cfg, saved) =
     (case unquoteBytes k of
        None \<Rightarrow> object ms (cfg, saveError SyntaxError saved)
      | Some key \<Rightarrow>
          if foldsToInfo key then
            (case v of
               JString s \<Rightarrow>
                 (case unquoteBytes s of
                    None \<Rightarrow> object ms (cfg, saveError SyntaxError saved)
                  | Some t \<Rightarrow> object ms (cfg\<lparr>Info := t\<rparr>, saved))
             | JNull \<Rightarrow> object ms (cfg, saved)
             | _ \<Rightarrow> object ms (cfg, saveError UnmarshalTypeError saved))
          else object ms (cfg, saved))"

definition json_Unmarshal :: "bytes \<Rightarrow> EbpfConfig \<Rightarrow> EbpfConfig \<times> error option" where
  "json_Unmarshal data v =
     (case checkValid data of
        None \<Rightarrow> (v, Some SyntaxError)
      | Some JNull \<Rightarrow> (v, None)
      | Some (JObject ms) \<Rightarrow> object ms (v, None)
      | Some _ \<Rightarrow> (v, Some UnmarshalTypeError))"

section \<open>The OCI content model (image-spec, go-digest)\<close>

text \<open>
  A descriptor names a blob by media type, digest and size; its annotations are a Go map,
  which can be \<^verbatim>\<open>nil\<close>. A manifest binds a configuration descriptor and the layer
  descriptors.
\<close>

record descriptor =
  MediaType :: string
  Digest :: string
  Size :: int
  Annotations :: "(string \<rightharpoonup> string) option"

record manifest =
  Config :: descriptor
  Layers :: "descriptor list"
  ManifestAnnotations :: "(string \<rightharpoonup> string) option"

definition AnnotationTitle :: string where
  "AnnotationTitle = ''org.opencontainers.image.title''"

definition MediaTypeImageManifest :: string where
  "MediaTypeImageManifest = ''application/vnd.oci.image.manifest.v1+json''"

definition DefaultBlobMediaType :: string where
  "DefaultBlobMediaType = ''application/vnd.oci.image.layer.v1.tar''"

definition MediaTypeImageIndex :: string where
  "MediaTypeImageIndex = ''application/vnd.oci.image.index.v1+json''"

definition MediaTypeDockerSchema2Manifest :: string where
  "MediaTypeDockerSchema2Manifest = ''application/vnd.docker.distribution.manifest.v2+json''"

definition MediaTypeDockerSchema2ManifestList :: string where
  "MediaTypeDockerSchema2ManifestList
     = ''application/vnd.docker.distribution.manifest.list.v2+json''"

definition AnnotationRefName :: string where
  "AnnotationRefName = ''org.opencontainers.image.ref.name''"

text \<open>
  Some functions of the libraries are parameters of the model: the content digest
  (\<^verbatim>\<open>digest.FromBytes\<close>, SHA-256 written in hexadecimal), the JSON form of a
  manifest with its reading, and containerd's two tests of a media type that is neither
  a manifest nor an index, whether it is a layer and whether it is a known configuration.
  The claims that need more than their being functions say so in their hypotheses.
\<close>

record deps =
  FromBytes :: "bytes \<Rightarrow> string"
  manifest_Marshal :: "manifest \<Rightarrow> bytes"
  manifest_Unmarshal :: "bytes \<Rightarrow> manifest option"
  IsLayerType :: "string \<Rightarrow> bool"
  IsKnownConfig :: "string \<Rightarrow> bool"

section \<open>The in-memory store (oras-go, content.Memory)\<close>

text \<open>
  The store keeps descriptors and contents by digest, descriptors by the name in their
  title annotation, and root descriptors by reference.
\<close>

record Memory =
  m_descriptor :: "string \<rightharpoonup> descriptor"
  m_content :: "string \<rightharpoonup> bytes"
  nameMap :: "string \<rightharpoonup> descriptor"
  refMap :: "string \<rightharpoonup> descriptor"

definition NewMemory :: Memory where
  "NewMemory =
     \<lparr>m_descriptor = Map.empty, m_content = Map.empty, nameMap = Map.empty, refMap = Map.empty\<rparr>"

definition ResolveName :: "descriptor \<Rightarrow> string option" where
  "ResolveName desc = (case Annotations desc of None \<Rightarrow> None | Some a \<Rightarrow> a AnnotationTitle)"

definition Memory_Set :: "Memory \<Rightarrow> descriptor \<Rightarrow> bytes \<Rightarrow> Memory" where
  "Memory_Set s desc c =
     s\<lparr>m_descriptor := (m_descriptor s)(Digest desc \<mapsto> desc),
       m_content := (m_content s)(Digest desc \<mapsto> c),
       nameMap :=
         (case ResolveName desc of
            None \<Rightarrow> nameMap s
          | Some name \<Rightarrow> if name \<noteq> [] then (nameMap s)(name \<mapsto> desc) else nameMap s)\<rparr>"

definition Memory_Add ::
  "deps \<Rightarrow> Memory \<Rightarrow> string \<Rightarrow> string \<Rightarrow> bytes \<Rightarrow> descriptor \<times> Memory \<times> error option" where
  "Memory_Add L s name mediaType c =
     (let annotations = (if name \<noteq> [] then Some [AnnotationTitle \<mapsto> name] else None);
          mediaType = (if mediaType = [] then DefaultBlobMediaType else mediaType);
          desc = \<lparr>MediaType = mediaType, Digest = FromBytes L c, Size = int (length c),
                  Annotations = annotations\<rparr>
      in (desc, Memory_Set s desc c, None))"

definition Memory_GetByName :: "Memory \<Rightarrow> string \<Rightarrow> (descriptor \<times> bytes) option" where
  "Memory_GetByName s name =
     (case nameMap s name of
        None \<Rightarrow> None
      | Some desc \<Rightarrow>
          (case m_content s (Digest desc) of None \<Rightarrow> None | Some c \<Rightarrow> Some (desc, c)))"

definition Memory_StoreManifest ::
  "deps \<Rightarrow> Memory \<Rightarrow> string \<Rightarrow> descriptor \<Rightarrow> bytes \<Rightarrow> Memory \<times> error option" where
  "Memory_StoreManifest L s ref desc m =
     (case Memory_Add L (s\<lparr>refMap := (refMap s)(ref \<mapsto> desc)\<rparr>) [] (MediaType desc) m of
        (_, s', _) \<Rightarrow> (s', None))"

definition Memory_Fetch :: "Memory \<Rightarrow> descriptor \<Rightarrow> bytes option" where
  "Memory_Fetch s desc =
     (case m_descriptor s (Digest desc) of
        None \<Rightarrow> None
      | Some _ \<Rightarrow> m_content s (Digest desc))"

text \<open>
  \<^verbatim>\<open>content.GenerateManifest\<close> with a configuration descriptor: the layers are sorted
  by digest, and the manifest's descriptor is that of its JSON form.
\<close>

definition GenerateManifest ::
  "deps \<Rightarrow> descriptor \<Rightarrow> (string \<rightharpoonup> string) option \<Rightarrow> descriptor list
     \<Rightarrow> bytes \<times> descriptor \<times> error option" where
  "GenerateManifest L config annotations descs =
     (let m = \<lparr>Config = config, Layers = sort_key Digest descs,
                ManifestAnnotations = annotations\<rparr>;
          manifestBytes = manifest_Marshal L m;
          manifestDescriptor =
            \<lparr>MediaType = MediaTypeImageManifest, Digest = FromBytes L manifestBytes,
             Size = int (length manifestBytes), Annotations = None\<rparr>
      in (manifestBytes, manifestDescriptor, None))"

section \<open>The remote registry, its handle and the copy (oras-go, containerd)\<close>

text \<open>
  The remote is what a registry holds: the root descriptor that each reference is tagged
  with, and blobs by digest. A registry resolves a reference to a media type, a digest and
  a size, without annotations.
\<close>

record remote =
  tags :: "string \<rightharpoonup> descriptor"
  blobs :: "string \<rightharpoonup> bytes"

definition Resolve :: "remote \<Rightarrow> string \<Rightarrow> descriptor option" where
  "Resolve r ref =
     (case tags r ref of None \<Rightarrow> None | Some root \<Rightarrow> Some (root\<lparr>Annotations := None\<rparr>))"

text \<open>
  The handle, \<^verbatim>\<open>content.Registry\<close>, is a resolver of containerd that lives as long as
  the handle does, and the resolver keeps a tracker: the keys of the descriptors that it
  has pushed. The key of a descriptor (\<^verbatim>\<open>remotes.MakeRefKey\<close>) is a prefix for the kind
  of its media type, then its digest, behind the name of its reference annotation when it
  has one; it is a triple here, and it does not depend on the reference that is pushed to.
  A handle from \<^verbatim>\<open>content.NewRegistry\<close> has pushed nothing.
\<close>

type_synonym refkey = "string \<times> string option \<times> string"

definition refPrefix :: "deps \<Rightarrow> string \<Rightarrow> string" where
  "refPrefix L mt =
     (if mt = MediaTypeDockerSchema2Manifest \<or> mt = MediaTypeImageManifest then ''manifest-''
      else if mt = MediaTypeDockerSchema2ManifestList \<or> mt = MediaTypeImageIndex then ''index-''
      else if IsLayerType L mt then ''layer-''
      else if IsKnownConfig L mt then ''config-''
      else ''unknown-'')"

definition MakeRefKey :: "deps \<Rightarrow> descriptor \<Rightarrow> refkey" where
  "MakeRefKey L desc =
     (refPrefix L (MediaType desc),
      (case Annotations desc of None \<Rightarrow> None | Some a \<Rightarrow> a AnnotationRefName),
      Digest desc)"

record Registry =
  tracker :: "refkey set"

definition NewRegistry :: Registry where
  "NewRegistry = \<lparr>tracker = {}\<rparr>"

definition children :: "deps \<Rightarrow> descriptor \<Rightarrow> bytes \<Rightarrow> descriptor list option" where
  "children L root body =
     (if MediaType root = MediaTypeImageManifest then
        (case manifest_Unmarshal L body of
           None \<Rightarrow> None
         | Some m \<Rightarrow> Some (Config m # Layers m))
      else Some [])"

fun fetch_all ::
  "(descriptor \<Rightarrow> bytes option) \<Rightarrow> descriptor list \<Rightarrow> (descriptor \<times> bytes) list option" where
  "fetch_all f [] = Some []"
| "fetch_all f (d # ds) =
     (case f d of
        None \<Rightarrow> None
      | Some c \<Rightarrow> (case fetch_all f ds of None \<Rightarrow> None | Some r \<Rightarrow> Some ((d, c) # r)))"

text \<open>
  The pusher of the handle. A descriptor whose key the tracker holds already exists for
  it: nothing is sent, and the copy takes that for success. Any other is sent and its
  key recorded: a blob is stored under its digest, and the root is stored under its
  digest and the reference tagged with it. (The pusher also asks the remote whether it
  holds the blob, or the reference the root's digest, and sends nothing if so; a
  registry holds a blob only under the blob's own digest, so sending it again changes
  nothing, and the model sends it.)
\<close>

definition push_blob :: "deps \<Rightarrow> Registry \<times> remote \<Rightarrow> descriptor \<times> bytes \<Rightarrow> Registry \<times> remote"
  where
  "push_blob L s k =
     (case (s, k) of
        ((h, r), (d, c)) \<Rightarrow>
          if MakeRefKey L d \<in> tracker h then (h, r)
          else (h\<lparr>tracker := insert (MakeRefKey L d) (tracker h)\<rparr>,
                r\<lparr>blobs := (blobs r)(Digest d \<mapsto> c)\<rparr>))"

definition push_root ::
  "deps \<Rightarrow> string \<Rightarrow> Registry \<times> remote \<Rightarrow> descriptor \<times> bytes \<Rightarrow> Registry \<times> remote" where
  "push_root L ref s k =
     (case (s, k) of
        ((h, r), (root, body)) \<Rightarrow>
          if MakeRefKey L root \<in> tracker h then (h, r)
          else (h\<lparr>tracker := insert (MakeRefKey L root) (tracker h)\<rparr>,
                r\<lparr>blobs := (blobs r)(Digest root \<mapsto> body),
                  tags := (tags r)(ref \<mapsto> root)\<rparr>))"

fun set_all :: "(descriptor \<times> bytes) list \<Rightarrow> Memory \<Rightarrow> Memory" where
  "set_all [] s = s"
| "set_all ((d, c) # r) s = set_all r (Memory_Set s d c)"

text \<open>
  \<^verbatim>\<open>oras.Copy\<close> with an empty target reference copies, under the source reference,
  the root that the reference resolves to in the source and the blobs that the root's
  manifest lists: the configuration, then the layers, then the root, which the copy
  holds back until what it lists has been sent. Its argument \<open>net\<close> is the error, if
  any, that the network or the remote decides for this call; a copy that fails leaves
  the handle and its target as they were (a real one can leave blobs behind, which no
  claim looks at). The copy returns no error for what the pusher did not send.

  From a store to the remote, through the pusher of the handle:
\<close>

definition Copy_to_registry ::
  "deps \<Rightarrow> error option \<Rightarrow> Registry \<Rightarrow> Memory \<Rightarrow> string \<Rightarrow> remote
     \<Rightarrow> Registry \<times> remote \<times> error option" where
  "Copy_to_registry L net h from ref to =
     (case net of
        Some err \<Rightarrow> (h, to, Some err)
      | None \<Rightarrow>
          (case refMap from ref of
             None \<Rightarrow> (h, to, Some ErrNotFound)
           | Some root \<Rightarrow>
               (case Memory_Fetch from root of
                  None \<Rightarrow> (h, to, Some ErrNotFound)
                | Some body \<Rightarrow>
                    (case children L root body of
                       None \<Rightarrow> (h, to, Some ManifestError)
                     | Some ds \<Rightarrow>
                         (case fetch_all (Memory_Fetch from) ds of
                            None \<Rightarrow> (h, to, Some ErrNotFound)
                          | Some kids \<Rightarrow>
                              (case push_root L ref (foldl (push_blob L) (h, to) kids)
                                      (root, body) of
                                 (h', to') \<Rightarrow> (h', to', None)))))))"

text \<open>
  From the remote to a store, through the resolver and the fetcher of the handle, which
  do not look at the tracker. A store takes a copied blob with the descriptor that the
  manifest has for it.
\<close>

definition Copy_from_registry ::
  "deps \<Rightarrow> error option \<Rightarrow> Registry \<Rightarrow> remote \<Rightarrow> string \<Rightarrow> Memory
     \<Rightarrow> Registry \<times> Memory \<times> error option" where
  "Copy_from_registry L net h from ref to =
     (case net of
        Some err \<Rightarrow> (h, to, Some err)
      | None \<Rightarrow>
          (case Resolve from ref of
             None \<Rightarrow> (h, to, Some ErrNotFound)
           | Some root \<Rightarrow>
               (case blobs from (Digest root) of
                  None \<Rightarrow> (h, to, Some ErrNotFound)
                | Some body \<Rightarrow>
                    (case children L root body of
                       None \<Rightarrow> (h, to, Some ManifestError)
                     | Some ds \<Rightarrow>
                         (case fetch_all (\<lambda>d. blobs from (Digest d)) ds of
                            None \<Rightarrow> (h, to, Some ErrNotFound)
                          | Some kids \<Rightarrow>
                              (h,
                               set_all kids
                                 ((Memory_Set to root body)\<lparr>refMap := (refMap to)(ref \<mapsto> root)\<rparr>),
                               None))))))"

text \<open>
  The entries of the manifest that a copy from the remote fetches at a reference, and
  whether one of them carries a name.
\<close>

definition entries :: "deps \<Rightarrow> remote \<Rightarrow> string \<Rightarrow> descriptor list option" where
  "entries L r ref =
     (case Resolve r ref of
        None \<Rightarrow> None
      | Some root \<Rightarrow>
          (case blobs r (Digest root) of None \<Rightarrow> None | Some body \<Rightarrow> children L root body))"

definition has_entry :: "descriptor list \<Rightarrow> string \<Rightarrow> bool" where
  "has_entry ds name = list_ex (\<lambda>d. ResolveName d = Some name) ds"

section \<open>The registry of eBPF packages (spec.go, lines 50 to 127)\<close>

text \<open>
  \<^verbatim>\<open>buildConfigDescriptor\<close>. With \<^verbatim>\<open>nil\<close> annotations it makes a map of its own;
  with a map, it writes the title into that map.
\<close>

definition buildConfigDescriptor ::
  "deps \<Rightarrow> bytes \<Rightarrow> (string \<rightharpoonup> string) option \<Rightarrow> descriptor \<times> error option" where
  "buildConfigDescriptor L byt annotations =
     (let dig = FromBytes L byt;
          annotations = (case annotations of None \<Rightarrow> Map.empty | Some a \<Rightarrow> a);
          annotations = annotations(AnnotationTitle \<mapsto> configName);
          config = \<lparr>MediaType = configMediaType, Digest = dig, Size = int (length byt),
                    Annotations = Some annotations\<rparr>
      in (config, None))"

text \<open>
  \<^verbatim>\<open>Push\<close>, lines 52 to 79: the local store that it fills before the copy, with the
  error that ends it early.
\<close>

definition stage :: "deps \<Rightarrow> string \<Rightarrow> EbpfPackage \<Rightarrow> Memory \<times> error option" where
  "stage L ref pkg =
     (let memoryStore = NewMemory in
      case Memory_Add L memoryStore ebpfFileName eBPFMediaType (ProgramFileBytes pkg) of
        (progDesc, memoryStore, Some err) \<Rightarrow> (memoryStore, Some err)
      | (progDesc, memoryStore, None) \<Rightarrow>
          (case json_Marshal (EbpfConfig pkg) of
             (configByt, Some err) \<Rightarrow> (memoryStore, Some err)
           | (configByt, None) \<Rightarrow>
               (case buildConfigDescriptor L configByt None of
                  (configDesc, Some err) \<Rightarrow> (memoryStore, Some err)
                | (configDesc, None) \<Rightarrow>
                    (let memoryStore = Memory_Set memoryStore configDesc configByt in
                     case GenerateManifest L configDesc None [progDesc] of
                       (manifest, manifestDesc, Some err) \<Rightarrow> (memoryStore, Some err)
                     | (manifest, manifestDesc, None) \<Rightarrow>
                         Memory_StoreManifest L memoryStore ref manifestDesc manifest))))"

text \<open>
  The manifest that \<^verbatim>\<open>Push\<close> generates for a package (line 71), and the three
  blobs that it stages: the program, the configuration and the manifest.
\<close>

definition staged_manifest :: "deps \<Rightarrow> EbpfPackage \<Rightarrow> manifest" where
  "staged_manifest L pkg =
     \<lparr>Config = fst (buildConfigDescriptor L (fst (json_Marshal (EbpfConfig pkg))) None),
      Layers = [fst (Memory_Add L NewMemory ebpfFileName eBPFMediaType (ProgramFileBytes pkg))],
      ManifestAnnotations = None\<rparr>"

definition staged_blobs :: "deps \<Rightarrow> EbpfPackage \<Rightarrow> bytes list" where
  "staged_blobs L pkg =
     [ProgramFileBytes pkg, fst (json_Marshal (EbpfConfig pkg)),
      manifest_Marshal L (staged_manifest L pkg)]"

text \<open>
  The receiver (lines 38 to 48) holds the handle and nothing else. The handle is a
  pointer to a resolver that changes as it is used, so the state of the receiver is
  passed in and returned, as the state of the remote is; the context is part of
  \<open>net\<close>.
\<close>

record ebpfResgistry =
  registry :: Registry

definition NewEbpfRegistry :: "Registry \<Rightarrow> ebpfResgistry" where
  "NewEbpfRegistry h = \<lparr>registry = h\<rparr>"

text \<open>
  \<^verbatim>\<open>Push\<close>. The package is a pointer: \<open>None\<close> is \<^verbatim>\<open>nil\<close>, and reading a
  field through it (line 54) panics.
\<close>

definition Push ::
  "deps \<Rightarrow> error option \<Rightarrow> ebpfResgistry \<Rightarrow> remote \<Rightarrow> string \<Rightarrow> EbpfPackage option
     \<Rightarrow> (ebpfResgistry \<times> remote \<times> error option) outcome" where
  "Push L net e r ref pkg =
     (case pkg of
        None \<Rightarrow> Panics
      | Some p \<Rightarrow>
          (case stage L ref p of
             (memoryStore, Some err) \<Rightarrow> Returns (e, r, Some err)
           | (memoryStore, None) \<Rightarrow>
               (case Copy_to_registry L net (registry e) memoryStore ref r of
                  (h, r', err) \<Rightarrow> Returns (e\<lparr>registry := h\<rparr>, r', err))))"

text \<open>\<^verbatim>\<open>Pull\<close>: the package, \<open>None\<close> for \<^verbatim>\<open>nil\<close>, and the error.\<close>

definition Pull ::
  "deps \<Rightarrow> error option \<Rightarrow> ebpfResgistry \<Rightarrow> remote \<Rightarrow> string
     \<Rightarrow> (ebpfResgistry \<times> EbpfPackage option \<times> error option) outcome"
  where
  "Pull L net e r ref =
     (let memoryStore = NewMemory in
      case Copy_from_registry L net (registry e) r ref memoryStore of
        (h, memoryStore, Some err) \<Rightarrow> Returns (e\<lparr>registry := h\<rparr>, None, Some err)
      | (h, memoryStore, None) \<Rightarrow>
          (case Memory_GetByName memoryStore ebpfFileName of
             None \<Rightarrow>
               Returns (e\<lparr>registry := h\<rparr>, None,
                        Some (errorString ''could not find ebpf bytes in manifest''))
           | Some (_, ebpfBytes) \<Rightarrow>
               (case Memory_GetByName memoryStore configName of
                  None \<Rightarrow>
                    Returns (e\<lparr>registry := h\<rparr>, None,
                             Some (errorString ''could not find ebpf bytes in manifest''))
                | Some (_, configBytes) \<Rightarrow>
                    (case json_Unmarshal configBytes \<lparr>Info = []\<rparr> of
                       (cfg, Some err) \<Rightarrow> Returns (e\<lparr>registry := h\<rparr>, None, Some err)
                     | (cfg, None) \<Rightarrow>
                         Returns (e\<lparr>registry := h\<rparr>,
                                  Some \<lparr>ProgramFileBytes = ebpfBytes, EbpfConfig = cfg\<rparr>,
                                  None)))))"


text \<open>
  The descriptor of the manifest that \<^verbatim>\<open>Push\<close> generates for a package (line 71),
  which is the root that the copy tags the reference with, and the keys under which a
  handle records the three descriptors that a push of the package sends.
\<close>

definition staged_root :: "deps \<Rightarrow> EbpfPackage \<Rightarrow> descriptor" where
  "staged_root L pkg =
     fst (snd (GenerateManifest L (Config (staged_manifest L pkg)) None
                 (Layers (staged_manifest L pkg))))"

definition staged_keys :: "deps \<Rightarrow> EbpfPackage \<Rightarrow> refkey list" where
  "staged_keys L pkg =
     [MakeRefKey L (Config (staged_manifest L pkg)),
      MakeRefKey L (hd (Layers (staged_manifest L pkg))),
      MakeRefKey L (staged_root L pkg)]"

text \<open>
  What a handle has recorded as pushed, of the three descriptors of a package, the remote
  still holds: the two blobs under their digests, and the manifest under its digest and
  under the reference. A handle that has pushed nothing has recorded nothing.
\<close>

definition pushed_still_held :: "deps \<Rightarrow> Registry \<Rightarrow> remote \<Rightarrow> string \<Rightarrow> EbpfPackage \<Rightarrow> bool"
  where
  "pushed_still_held L h r ref pkg =
     ((MakeRefKey L (hd (Layers (staged_manifest L pkg))) \<in> tracker h
         \<longrightarrow> blobs r (FromBytes L (ProgramFileBytes pkg)) = Some (ProgramFileBytes pkg))
      \<and> (MakeRefKey L (Config (staged_manifest L pkg)) \<in> tracker h
         \<longrightarrow> blobs r (FromBytes L (fst (json_Marshal (EbpfConfig pkg))))
               = Some (fst (json_Marshal (EbpfConfig pkg))))
      \<and> (MakeRefKey L (staged_root L pkg) \<in> tracker h
         \<longrightarrow> Resolve r ref = Some (staged_root L pkg)
             \<and> blobs r (Digest (staged_root L pkg))
                 = Some (manifest_Marshal L (staged_manifest L pkg))))"

section \<open>Concrete instances\<close>

text \<open>
  A library for running the model on examples: its digest of a blob is as long as the
  blob, which tells blobs of different lengths apart, and its manifest form is one byte
  that reads back as the one manifest it is made for.
\<close>

definition ex_dig :: "bytes \<Rightarrow> string" where
  "ex_dig b = replicate (length b) CHR ''x''"

definition ex_digest_only :: deps where
  "ex_digest_only =
     \<lparr>FromBytes = ex_dig, manifest_Marshal = (\<lambda>_. []), manifest_Unmarshal = (\<lambda>_. None),
      IsLayerType = (\<lambda>_. False), IsKnownConfig = (\<lambda>_. False)\<rparr>"

definition ex_codec :: "manifest \<Rightarrow> deps" where
  "ex_codec m =
     \<lparr>FromBytes = ex_dig, manifest_Marshal = (\<lambda>_. [0x6D]), manifest_Unmarshal = (\<lambda>_. Some m),
      IsLayerType = (\<lambda>_. False), IsKnownConfig = (\<lambda>_. False)\<rparr>"

definition ex_lib :: "EbpfPackage \<Rightarrow> deps" where
  "ex_lib p = ex_codec (staged_manifest ex_digest_only p)"

definition ex_desc :: "string \<Rightarrow> string \<Rightarrow> bytes \<Rightarrow> descriptor" where
  "ex_desc name mediaType c =
     \<lparr>MediaType = mediaType, Digest = ex_dig c, Size = int (length c),
      Annotations = (if name = [] then None else Some [AnnotationTitle \<mapsto> name])\<rparr>"

text \<open>
  A program of four bytes; the configurations \<^verbatim>\<open>{"info":"a"}\<close> and
  \<^verbatim>\<open>{"info":"a","info":1}\<close>; a remote that holds, under the reference \<^verbatim>\<open>r\<close>,
  a one-byte manifest, a configuration and the program; a manifest whose configuration
  and layer carry the given names, and no name when the name is empty.
\<close>

definition ex_program :: bytes where
  "ex_program = [0x7F, 0x45, 0x4C, 0x46]"

definition ex_config :: bytes where
  "ex_config = [0x7B, 0x22, 0x69, 0x6E, 0x66, 0x6F, 0x22, 0x3A, 0x22, 0x61, 0x22, 0x7D]"

definition ex_config_bad :: bytes where
  "ex_config_bad =
     [0x7B, 0x22, 0x69, 0x6E, 0x66, 0x6F, 0x22, 0x3A, 0x22, 0x61, 0x22, 0x2C,
      0x22, 0x69, 0x6E, 0x66, 0x6F, 0x22, 0x3A, 0x31, 0x7D]"

definition ex_remote :: "bytes \<Rightarrow> remote" where
  "ex_remote cfg =
     \<lparr>tags = [''r'' \<mapsto> ex_desc [] MediaTypeImageManifest [0x6D]],
      blobs = [ex_dig [0x6D] \<mapsto> [0x6D], ex_dig cfg \<mapsto> cfg, ex_dig ex_program \<mapsto> ex_program]\<rparr>"

definition ex_empty :: remote where
  "ex_empty = \<lparr>tags = Map.empty, blobs = Map.empty\<rparr>"

definition ex_manifest :: "string \<Rightarrow> string \<Rightarrow> bytes \<Rightarrow> manifest" where
  "ex_manifest cname pname cfg =
     \<lparr>Config = ex_desc cname configMediaType cfg,
      Layers = [ex_desc pname eBPFMediaType ex_program], ManifestAnnotations = None\<rparr>"

text \<open>
  A library for two packages: its manifest form is as long as the digests of the
  configuration and the layers that the manifest lists, and it reads back as the one of
  the given manifests that has this form. The sizes of the three blobs that a push of a
  package stages with it.
\<close>

definition ex_marshal :: "manifest \<Rightarrow> bytes" where
  "ex_marshal m =
     0x6D # replicate (length (Digest (Config m))) 0x63
       @ concat (map (\<lambda>d. 0x2C # replicate (length (Digest d)) 0x6C) (Layers m))"

definition ex_codec_of :: "manifest list \<Rightarrow> deps" where
  "ex_codec_of ms =
     \<lparr>FromBytes = ex_dig, manifest_Marshal = ex_marshal,
      manifest_Unmarshal = (\<lambda>b. find (\<lambda>m. ex_marshal m = b) ms),
      IsLayerType = (\<lambda>_. False), IsKnownConfig = (\<lambda>_. False)\<rparr>"

definition ex_lib2 :: "EbpfPackage \<Rightarrow> EbpfPackage \<Rightarrow> deps" where
  "ex_lib2 p q =
     ex_codec_of [staged_manifest ex_digest_only p, staged_manifest ex_digest_only q]"

definition ex_sizes :: "EbpfPackage \<Rightarrow> nat list" where
  "ex_sizes p =
     [length (ProgramFileBytes p), length (fst (json_Marshal (EbpfConfig p))),
      length (ex_marshal (staged_manifest ex_digest_only p))]"

text \<open>
  Packages: \<open>ex_A\<close> of four program bytes and the \<open>Info\<close> a, \<open>ex_B\<close> of five
  and bb, \<open>ex_none\<close> of no program bytes and an empty \<open>Info\<close>, \<open>ex_accent\<close>
  with the \<open>Info\<close> of the bytes 68, C3, A9, and \<open>ex_ff\<close> with the \<open>Info\<close> of
  the one byte FF. Receivers: one whose handle has pushed nothing, and one whose handle
  has recorded the three descriptors of a package.
\<close>

definition ex_A :: EbpfPackage where
  "ex_A = \<lparr>ProgramFileBytes = ex_program, EbpfConfig = \<lparr>Info = [0x61]\<rparr>\<rparr>"

definition ex_B :: EbpfPackage where
  "ex_B = \<lparr>ProgramFileBytes = [0x7F, 0x45, 0x4C, 0x46, 0x02], EbpfConfig = \<lparr>Info = [0x62, 0x62]\<rparr>\<rparr>"

definition ex_none :: EbpfPackage where
  "ex_none = \<lparr>ProgramFileBytes = [], EbpfConfig = \<lparr>Info = []\<rparr>\<rparr>"

definition ex_accent :: EbpfPackage where
  "ex_accent = \<lparr>ProgramFileBytes = ex_program, EbpfConfig = \<lparr>Info = [0x68, 0xC3, 0xA9]\<rparr>\<rparr>"

definition ex_ff :: EbpfPackage where
  "ex_ff = \<lparr>ProgramFileBytes = ex_program, EbpfConfig = \<lparr>Info = [0xFF]\<rparr>\<rparr>"

definition ex_fresh :: ebpfResgistry where
  "ex_fresh = NewEbpfRegistry NewRegistry"

definition ex_used :: "deps \<Rightarrow> EbpfPackage \<Rightarrow> ebpfResgistry" where
  "ex_used L p = NewEbpfRegistry \<lparr>tracker = set (staged_keys L p)\<rparr>"

section \<open>Well-formed encodings\<close>

text \<open>The shapes of a well-formed encoding of more than one byte.\<close>

definition multi :: "byte \<Rightarrow> bytes \<Rightarrow> nat \<Rightarrow> nat \<Rightarrow> bool" where
  "multi b s c sz =
     ((\<exists>b1 t. s = b1 # t \<and> sz = 2 \<and> c = rune2 b b1 \<and> 0xC2 \<le> unat b \<and> unat b < 0xE0 \<and> cont b1)
      \<or> (\<exists>b1 b2 t. s = b1 # b2 # t \<and> sz = 3 \<and> c = rune3 b b1 b2 \<and> 0xE0 \<le> unat b
            \<and> unat b < 0xF0 \<and> accept3 b b1 \<and> cont b2)
      \<or> (\<exists>b1 b2 b3 t. s = b1 # b2 # b3 # t \<and> sz = 4 \<and> c = rune4 b b1 b2 b3 \<and> 0xF0 \<le> unat b
            \<and> unat b \<le> 0xF4 \<and> accept4 b b1 \<and> cont b2 \<and> cont b3))"

section \<open>utf8: encoding what was decoded\<close>

lemma unat_lt256: "unat (b::byte) < 256"
  using unsigned_less [of b, where 'a = nat] by simp

lemma divmod64: "c < 64 \<Longrightarrow> (a * 64 + c) div 64 = a \<and> (a * 64 + c) mod 64 = (c::nat)"
  by simp

lemma Enc2:
  assumes "2 \<le> a" "a < 32" "c < 64"
  shows "EncodeRune (a * 64 + c) = [of_nat (0xC0 + a), of_nat (0x80 + c)]"
proof -
  have "0x7F < a * 64 + c" "a * 64 + c \<le> 0x7FF" using assms by auto
  then show ?thesis using divmod64 [OF assms(3), of a] unfolding EncodeRune_def by simp
qed

lemma Enc3:
  assumes "a < 16" "b < 64" "c < 64" "a = 0 \<longrightarrow> 32 \<le> b" "a = 13 \<longrightarrow> b < 32"
  shows "EncodeRune ((a * 64 + b) * 64 + c)
           = [of_nat (0xE0 + a), of_nat (0x80 + b), of_nat (0x80 + c)]"
proof -
  let ?q = "a * 64 + b"
  have lo: "0x7FF < ?q * 64 + c" using assms by (cases "a = 0") auto
  have hi: "?q * 64 + c \<le> 0xFFFF" using assms by auto
  have ns: "\<not> (0xD800 \<le> ?q * 64 + c \<and> ?q * 64 + c \<le> 0xDFFF)"
  proof (cases "a = 13")
    case True then show ?thesis using assms by auto
  next
    case False
    then have "a < 13 \<or> 13 < a" by auto
    then show ?thesis using assms by auto
  qed
  have d1: "(?q * 64 + c) div 64 = ?q" "(?q * 64 + c) mod 64 = c"
    using divmod64 [OF assms(3), of ?q] by auto
  have d2: "?q div 64 = a" "?q mod 64 = b" using divmod64 [OF assms(2), of a] by auto
  have d3: "(?q * 64 + c) div 4096 = a"
    using div_mult2_eq [of "?q * 64 + c" 64 64] d1 d2 by simp
  show ?thesis using lo hi ns unfolding EncodeRune_def by (simp only: d1 d2 d3) simp
qed

lemma Enc4:
  assumes "a < 5" "b < 64" "c < 64" "d < 64" "a = 0 \<longrightarrow> 16 \<le> b" "a = 4 \<longrightarrow> b < 16"
  shows "EncodeRune (((a * 64 + b) * 64 + c) * 64 + d)
           = [of_nat (0xF0 + a), of_nat (0x80 + b), of_nat (0x80 + c), of_nat (0x80 + d)]"
proof -
  let ?p = "a * 64 + b"
  let ?q = "?p * 64 + c"
  let ?r = "?q * 64 + d"
  have lo: "0xFFFF < ?r" using assms by (cases "a = 0") auto
  have hi: "?r \<le> 0x10FFFF"
  proof (cases "a = 4")
    case True then show ?thesis using assms by auto
  next
    case False then have "a \<le> 3" using assms by auto
    then show ?thesis using assms by auto
  qed
  have d1: "?r div 64 = ?q" "?r mod 64 = d" using divmod64 [OF assms(4), of ?q] by auto
  have d2: "?q div 64 = ?p" "?q mod 64 = c" using divmod64 [OF assms(3), of ?p] by auto
  have d3: "?p div 64 = a" "?p mod 64 = b" using divmod64 [OF assms(2), of a] by auto
  have d4: "?r div 4096 = ?p" using div_mult2_eq [of ?r 64 64] d1 d2 by simp
  have d5: "?r div 262144 = a" using div_mult2_eq [of ?r 4096 64] d4 d3 by simp
  show ?thesis using lo hi unfolding EncodeRune_def by (simp only: d1 d2 d3 d4 d5) simp
qed

lemma byte_back: "k \<le> unat (b::byte) \<Longrightarrow> of_nat (k + (unat b - k)) = b"
  by simp

lemma Enc_rune2:
  assumes "0xC2 \<le> unat p0" "unat p0 < 0xE0" "cont b1"
  shows "EncodeRune (rune2 p0 b1) = [p0, b1]"
proof -
  have "EncodeRune (rune2 p0 b1)
      = [of_nat (0xC0 + (unat p0 - 0xC0)), of_nat (0x80 + (unat b1 - 0x80))]"
    unfolding rune2_def using assms by (intro Enc2) (auto simp: cont_def)
  also have "\<dots> = [p0, b1]"
    using assms byte_back [of "0xC0" p0] byte_back [of "0x80" b1] by (simp add: cont_def)
  finally show ?thesis .
qed

lemma Enc_rune3:
  assumes "0xE0 \<le> unat p0" "unat p0 < 0xF0" "accept3 p0 b1" "cont b2"
  shows "EncodeRune (rune3 p0 b1 b2) = [p0, b1, b2]"
proof -
  have b1: "0x80 \<le> unat b1" "unat b1 \<le> 0xBF"
    using assms(3) by (auto simp: accept3_def split: if_splits)
  have "EncodeRune (rune3 p0 b1 b2)
      = [of_nat (0xE0 + (unat p0 - 0xE0)), of_nat (0x80 + (unat b1 - 0x80)),
         of_nat (0x80 + (unat b2 - 0x80))]"
    unfolding rune3_def using assms b1
    by (intro Enc3) (auto simp: cont_def accept3_def split: if_splits)
  also have "\<dots> = [p0, b1, b2]"
    using assms b1 byte_back [of "0xE0" p0] byte_back [of "0x80" b1] byte_back [of "0x80" b2]
    by (simp add: cont_def)
  finally show ?thesis .
qed

lemma Enc_rune4:
  assumes "0xF0 \<le> unat p0" "unat p0 \<le> 0xF4" "accept4 p0 b1" "cont b2" "cont b3"
  shows "EncodeRune (rune4 p0 b1 b2 b3) = [p0, b1, b2, b3]"
proof -
  have b1: "0x80 \<le> unat b1" "unat b1 \<le> 0xBF"
    using assms(3) by (auto simp: accept4_def split: if_splits)
  have "EncodeRune (rune4 p0 b1 b2 b3)
      = [of_nat (0xF0 + (unat p0 - 0xF0)), of_nat (0x80 + (unat b1 - 0x80)),
         of_nat (0x80 + (unat b2 - 0x80)), of_nat (0x80 + (unat b3 - 0x80))]"
    unfolding rune4_def using assms b1
    by (intro Enc4) (auto simp: cont_def accept4_def split: if_splits)
  also have "\<dots> = [p0, b1, b2, b3]"
    using assms b1 byte_back [of "0xF0" p0] byte_back [of "0x80" b1] byte_back [of "0x80" b2]
      byte_back [of "0x80" b3]
    by (simp add: cont_def)
  finally show ?thesis .
qed

lemma DecodeRune_multi:
  assumes "DecodeRune (b # s) = (c, sz)" "\<not> unat b < 0x80" "\<not> (c = RuneError \<and> sz = 1)"
  shows "multi b s c sz"
  using assms unfolding multi_def
  by (auto split: if_splits list.splits)

lemma multi_Encode: "multi b s c sz \<Longrightarrow> EncodeRune c = take sz (b # s)"
  unfolding multi_def by (auto simp: Enc_rune2 Enc_rune3 Enc_rune4)

lemma multi_prefix: "multi b s c sz \<Longrightarrow> DecodeRune (take sz (b # s) @ ys) = (c, sz)"
  unfolding multi_def by auto

lemma accept3_high: "accept3 p b \<Longrightarrow> 0x80 \<le> unat b"
  by (auto simp: accept3_def split: if_splits)

lemma accept4_high: "accept4 p b \<Longrightarrow> 0x80 \<le> unat b"
  by (auto simp: accept4_def split: if_splits)

lemma multi_high: "multi b s c sz \<Longrightarrow> \<forall>x \<in> set (take sz (b # s)). 0x80 \<le> unat x"
  unfolding multi_def by (auto simp: cont_def dest: accept3_high accept4_high)

lemma multi_drop: "multi b s c sz \<Longrightarrow> drop (sz - 1) (tl (take sz (b # s) @ ys)) = ys"
  unfolding multi_def by auto

lemma multi_size: "multi b s c sz \<Longrightarrow> 1 \<le> sz \<and> sz \<le> length (b # s)"
  unfolding multi_def by auto

lemma DecodeRune_size: "DecodeRune (b # s) = (c, sz) \<Longrightarrow> 1 \<le> sz"
  by (auto split: if_splits list.splits)

lemma Valid_coerce: "Valid s \<Longrightarrow> coerceUTF8 s = s"
proof (induction s rule: Valid.induct)
  case 1
  then show ?case by simp
next
  case (2 b s)
  obtain c sz where d: "DecodeRune (b # s) = (c, sz)" by (cases "DecodeRune (b # s)")
  have ne: "\<not> (c = RuneError \<and> sz = 1)" and v: "Valid (drop (sz - 1) s)"
    using "2.prems" d by (auto split: if_splits)
  have ih: "coerceUTF8 (drop (sz - 1) s) = drop (sz - 1) s"
    using "2.IH" [OF d [symmetric] ne v] .
  have "1 \<le> sz" using DecodeRune_size [OF d] .
  then have "drop (sz - 1) s = drop sz (b # s)" by (cases sz) auto
  then have "take sz (b # s) @ drop (sz - 1) s = b # s" by (simp only: append_take_drop_id)
  then show ?case using d ne ih by (auto simp del: DecodeRune.simps)
qed


subsection \<open>The scanner on what appendString writes\<close>

lemma unat_of_nat_byte: "k < 256 \<Longrightarrow> unat (of_nat k :: byte) = k"
  by (simp add: unat_of_nat)

lemma unat_hex: "n < 16 \<Longrightarrow> unat (hex n) = (if n < 10 then 0x30 + n else 0x57 + n)"
  unfolding hex_def by (simp add: unat_of_nat_byte del: of_nat_add)

lemma hexval_hex: "n < 16 \<Longrightarrow> hexval (hex n) = Some n"
  unfolding hexval_def by (simp add: unat_hex)

lemma isHex_hex: "n < 16 \<Longrightarrow> isHex (hex n)"
  by (simp add: isHex_def hexval_hex)

lemma string_span_plain:
  "0x20 \<le> unat c \<Longrightarrow> c \<noteq> 0x22 \<Longrightarrow> c \<noteq> 0x5C
    \<Longrightarrow> string_span (c # r) = (case string_span r of None \<Rightarrow> None | Some n \<Rightarrow> Some (n + 1))"
  by simp

lemma string_span_high:
  "\<forall>x \<in> set xs. 0x80 \<le> unat x
    \<Longrightarrow> string_span (xs @ r) = (case string_span r of None \<Rightarrow> None | Some n \<Rightarrow> Some (n + length xs))"
proof (induction xs)
  case Nil
  then show ?case by (simp split: option.splits)
next
  case (Cons x xs)
  then have x: "0x80 \<le> unat x" by simp
  then have "x \<noteq> 0x22" "x \<noteq> 0x5C" "0x20 \<le> unat x" by auto
  then have "string_span ((x # xs) @ r)
      = (case string_span (xs @ r) of None \<Rightarrow> None | Some n \<Rightarrow> Some (n + 1))"
    using string_span_plain [of x "xs @ r"] by simp
  then show ?case using Cons by (simp split: option.splits)
qed

lemma string_span_u:
  "isHex h1 \<Longrightarrow> isHex h2 \<Longrightarrow> isHex h3 \<Longrightarrow> isHex h4
    \<Longrightarrow> string_span ([0x5C, 0x75, h1, h2, h3, h4] @ r)
        = (case string_span r of None \<Rightarrow> None | Some n \<Rightarrow> Some (n + 6))"
  by simp

lemma isHex_consts: "isHex 0x30" "isHex 0x32" "isHex 0x66" "isHex 0x64"
  by (simp_all add: isHex_def hexval_def)

lemma string_span_escapeByte:
  "unat b < 0x80 \<Longrightarrow> string_span (escapeByte b @ r)
     = (case string_span r of None \<Rightarrow> None | Some n \<Rightarrow> Some (n + length (escapeByte b)))"
proof -
  assume b: "unat b < 0x80"
  have h: "isHex (hex (unat b div 16))" "isHex (hex (unat b mod 16))"
    using b by (auto intro!: isHex_hex)
  have u: "string_span ([0x5C, 0x75, 0x30, 0x30, hex (unat b div 16), hex (unat b mod 16)] @ r)
     = (case string_span r of None \<Rightarrow> None | Some n \<Rightarrow> Some (n + 6))"
    using h by (intro string_span_u) (simp_all add: isHex_consts)
  show ?thesis
    unfolding escapeByte_def using u by (simp split: option.splits)
qed

lemma string_span_loop:
  "string_span (appendString_loop s @ 0x22 # r) = Some (length (appendString_loop s))"
proof (induction s rule: appendString_loop.induct)
  case 1
  then show ?case by simp
next
  case (2 b src)
  show ?case
  proof (cases "unat b < 0x80")
    case True
    note ih = "2.IH"(1) [OF True]
    show ?thesis
    proof (cases "htmlSafe b")
      case True
      then have "0x20 \<le> unat b" "b \<noteq> 0x22" "b \<noteq> 0x5C" by (auto simp: htmlSafe_def)
      then show ?thesis
        using string_span_plain [of b "appendString_loop src @ 0x22 # r"] ih \<open>unat b < 0x80\<close> True
        by (simp del: string_span.simps)
    next
      case False
      then show ?thesis
        using string_span_escapeByte [OF True, of "appendString_loop src @ 0x22 # r"] ih True
        by (simp del: string_span.simps)
    qed
  next
    case F: False
    obtain c sz where d: "DecodeRune (b # src) = (c, sz)" by (cases "DecodeRune (b # src)")
    show ?thesis
    proof (cases "c = RuneError \<and> sz = 1")
      case True
      have "string_span ([0x5C, 0x75, 0x66, 0x66, 0x66, 0x64] @ (appendString_loop src @ 0x22 # r))
        = (case string_span (appendString_loop src @ 0x22 # r) of None \<Rightarrow> None | Some n \<Rightarrow> Some (n + 6))"
        by (intro string_span_u) (simp_all add: isHex_consts)
      then show ?thesis
        using "2.IH"(2) [OF F d [symmetric] True] F d True
        by (simp del: string_span.simps DecodeRune.simps)
    next
      case N: False
      have m: "multi b src c sz" using DecodeRune_multi [OF d F N] .
      show ?thesis
      proof (cases "c = 0x2028 \<or> c = 0x2029")
        case True
        have "c mod 16 < 16" by simp
        then have "isHex (hex (c mod 16))" by (rule isHex_hex)
        then have "string_span ([0x5C, 0x75, 0x32, 0x30, 0x32, hex (c mod 16)]
              @ (appendString_loop (drop (sz - 1) src) @ 0x22 # r))
          = (case string_span (appendString_loop (drop (sz - 1) src) @ 0x22 # r) of
               None \<Rightarrow> None | Some n \<Rightarrow> Some (n + 6))"
          by (intro string_span_u) (simp_all add: isHex_consts)
        then show ?thesis
          using "2.IH"(3) [OF F d [symmetric] N True] F d N True
          by (auto simp del: string_span.simps DecodeRune.simps)
      next
        case False
        have "string_span (take sz (b # src) @ (appendString_loop (drop (sz - 1) src) @ 0x22 # r))
          = (case string_span (appendString_loop (drop (sz - 1) src) @ 0x22 # r) of
               None \<Rightarrow> None | Some n \<Rightarrow> Some (n + length (take sz (b # src))))"
          by (rule string_span_high [OF multi_high [OF m]])
        then show ?thesis
          using "2.IH"(4) [OF F d [symmetric] N False] F d N False
          by (auto simp del: string_span.simps DecodeRune.simps)
      qed
    qed
  qed
qed

section \<open>json: reading what Marshal wrote\<close>

lemma getu4_lit:
  "hexval h1 = Some a \<Longrightarrow> hexval h2 = Some b \<Longrightarrow> hexval h3 = Some c \<Longrightarrow> hexval h4 = Some d
    \<Longrightarrow> getu4 ([0x5C, 0x75, h1, h2, h3, h4] @ r) = Some (((a * 16 + b) * 16 + c) * 16 + d)"
  by (simp add: getu4_def)

lemma unquote_u:
  assumes "getu4 ([0x5C, 0x75, h1, h2, h3, h4] @ r) = Some rr" "\<not> IsSurrogate rr"
  shows "unquoteBytes ([0x5C, 0x75, h1, h2, h3, h4] @ r)
      = (case unquoteBytes r of None \<Rightarrow> None | Some t \<Rightarrow> Some (EncodeRune rr @ t))"
  using assms by simp

lemma hexval_consts:
  "hexval 0x30 = Some 0" "hexval 0x32 = Some 2" "hexval 0x66 = Some 15" "hexval 0x64 = Some 13"
  by (simp_all add: hexval_def)

lemma unquote_plain:
  "0x20 \<le> unat c \<Longrightarrow> unat c < 0x80 \<Longrightarrow> c \<noteq> 0x22 \<Longrightarrow> c \<noteq> 0x5C
    \<Longrightarrow> unquoteBytes (c # r) = (case unquoteBytes r of None \<Rightarrow> None | Some t \<Rightarrow> Some (c # t))"
  by simp

lemma EncodeRune_ascii: "unat b < 0x80 \<Longrightarrow> EncodeRune (unat b) = [b]"
  by (simp add: EncodeRune_def)

lemma unquote_escapeByte:
  assumes "unat b < 0x80" "\<not> htmlSafe b"
  shows "unquoteBytes (escapeByte b @ r)
      = (case unquoteBytes r of None \<Rightarrow> None | Some t \<Rightarrow> Some (b # t))"
proof -
  have g: "getu4 ([0x5C, 0x75, 0x30, 0x30, hex (unat b div 16), hex (unat b mod 16)] @ r)
      = Some (unat b)"
  proof -
    have "getu4 ([0x5C, 0x75, 0x30, 0x30, hex (unat b div 16), hex (unat b mod 16)] @ r)
      = Some (((0 * 16 + 0) * 16 + unat b div 16) * 16 + unat b mod 16)"
      using assms(1) by (intro getu4_lit) (simp_all add: hexval_consts hexval_hex)
    then show ?thesis by simp
  qed
  have ns: "\<not> IsSurrogate (unat b)" using assms(1) by (simp add: IsSurrogate_def)
  have u: "unquoteBytes ([0x5C, 0x75, 0x30, 0x30, hex (unat b div 16), hex (unat b mod 16)] @ r)
      = (case unquoteBytes r of None \<Rightarrow> None | Some t \<Rightarrow> Some (b # t))"
  proof -
    have "unquoteBytes ([0x5C, 0x75, 0x30, 0x30, hex (unat b div 16), hex (unat b mod 16)] @ r)
      = (case unquoteBytes r of None \<Rightarrow> None | Some t \<Rightarrow> Some (EncodeRune (unat b) @ t))"
      by (rule unquote_u [OF g ns])
    then show ?thesis by (simp only: EncodeRune_ascii [OF assms(1)] append.simps)
  qed
  show ?thesis
  proof (cases "b = 0x5C \<or> b = 0x22 \<or> b = 0x08 \<or> b = 0x0C \<or> b = 0x0A \<or> b = 0x0D \<or> b = 0x09")
    case True
    then show ?thesis unfolding escapeByte_def by (auto simp: unescape_def)
  next
    case False
    then have "escapeByte b = [0x5C, 0x75, 0x30, 0x30, hex (unat b div 16), hex (unat b mod 16)]"
      by (simp add: escapeByte_def)
    then show ?thesis using u by (simp only:)
  qed
qed

lemma EncodeRune_FFFD: "EncodeRune RuneError = [0xEF, 0xBF, 0xBD]"
  by (simp add: EncodeRune_def RuneError_def)

lemma unquote_fffd:
  "unquoteBytes ([0x5C, 0x75, 0x66, 0x66, 0x66, 0x64] @ r)
      = (case unquoteBytes r of None \<Rightarrow> None | Some t \<Rightarrow> Some ([0xEF, 0xBF, 0xBD] @ t))"
proof -
  have g: "getu4 ([0x5C, 0x75, 0x66, 0x66, 0x66, 0x64] @ r) = Some RuneError"
    using getu4_lit [OF hexval_consts(3) hexval_consts(3) hexval_consts(3) hexval_consts(4), of r]
    by (simp add: RuneError_def)
  have ns: "\<not> IsSurrogate RuneError" by (simp add: IsSurrogate_def RuneError_def)
  show ?thesis using unquote_u [OF g ns] by (simp only: EncodeRune_FFFD)
qed

lemma unquote_202x:
  assumes "c = 0x2028 \<or> c = 0x2029"
  shows "unquoteBytes ([0x5C, 0x75, 0x32, 0x30, 0x32, hex (c mod 16)] @ r)
      = (case unquoteBytes r of None \<Rightarrow> None | Some t \<Rightarrow> Some (EncodeRune c @ t))"
proof -
  have "getu4 ([0x5C, 0x75, 0x32, 0x30, 0x32, hex (c mod 16)] @ r)
      = Some (((2 * 16 + 0) * 16 + 2) * 16 + c mod 16)"
    by (intro getu4_lit) (simp_all add: hexval_consts hexval_hex)
  moreover have "((2 * 16 + 0) * 16 + 2) * 16 + c mod 16 = c" using assms by auto
  ultimately have g: "getu4 ([0x5C, 0x75, 0x32, 0x30, 0x32, hex (c mod 16)] @ r) = Some c"
    by simp
  have ns: "\<not> IsSurrogate c" using assms by (auto simp: IsSurrogate_def)
  show ?thesis using unquote_u [OF g ns] .
qed

lemma unquote_multi:
  assumes "multi b s c sz"
  shows "unquoteBytes (take sz (b # s) @ r)
      = (case unquoteBytes r of None \<Rightarrow> None | Some t \<Rightarrow> Some (take sz (b # s) @ t))"
proof -
  obtain s' where t: "take sz (b # s) = b # s'"
    using multi_size [OF assms] by (cases sz) auto
  have hi: "0x80 \<le> unat b" using multi_high [OF assms] t by auto
  then have b: "b \<noteq> 0x5C" "b \<noteq> 0x22" "\<not> unat b < 0x20" "\<not> unat b < 0x80" by auto
  have d: "DecodeRune (b # s' @ r) = (c, sz)" using multi_prefix [OF assms, of r] t by simp
  have dr: "drop (sz - 1) (s' @ r) = r" using multi_drop [OF assms, of r] t by simp
  have "unquoteBytes (b # s' @ r)
      = (case unquoteBytes r of None \<Rightarrow> None | Some t \<Rightarrow> Some (EncodeRune c @ t))"
    using b d dr by (simp del: DecodeRune.simps)
  then show ?thesis by (simp only: multi_Encode [OF assms] t append.simps)
qed

lemma coerce_ascii: "unat b < 0x80 \<Longrightarrow> coerceUTF8 (b # s) = b # coerceUTF8 s"
  by (simp add: RuneError_def)

lemma unquote_loop: "unquoteBytes (appendString_loop s) = Some (coerceUTF8 s)"
proof (induction s rule: appendString_loop.induct)
  case 1
  then show ?case by simp
next
  case (2 b src)
  show ?case
  proof (cases "unat b < 0x80")
    case True
    note ih = "2.IH"(1) [OF True]
    show ?thesis
    proof (cases "htmlSafe b")
      case True
      then have "0x20 \<le> unat b" "b \<noteq> 0x22" "b \<noteq> 0x5C" by (auto simp: htmlSafe_def)
      then show ?thesis
        using unquote_plain [of b "appendString_loop src"] ih \<open>unat b < 0x80\<close> True
          coerce_ascii [of b src]
        by (simp del: unquoteBytes.simps coerceUTF8.simps)
    next
      case False
      then show ?thesis
        using unquote_escapeByte [OF True False, of "appendString_loop src"] ih True
          coerce_ascii [of b src]
        by (simp del: unquoteBytes.simps coerceUTF8.simps)
    qed
  next
    case F: False
    obtain c sz where d: "DecodeRune (b # src) = (c, sz)" by (cases "DecodeRune (b # src)")
    show ?thesis
    proof (cases "c = RuneError \<and> sz = 1")
      case True
      then show ?thesis
        using "2.IH"(2) [OF F d [symmetric] True] F d True
          unquote_fffd [of "appendString_loop src"]
        by (simp del: unquoteBytes.simps DecodeRune.simps)
    next
      case N: False
      have m: "multi b src c sz" using DecodeRune_multi [OF d F N] .
      show ?thesis
      proof (cases "c = 0x2028 \<or> c = 0x2029")
        case True
        then show ?thesis
          using "2.IH"(3) [OF F d [symmetric] N True] F d N True
            unquote_202x [OF True, of "appendString_loop (drop (sz - 1) src)"]
            multi_Encode [OF m]
          by (auto simp del: unquoteBytes.simps DecodeRune.simps)
      next
        case False
        then show ?thesis
          using "2.IH"(4) [OF F d [symmetric] N False] F d N False
            unquote_multi [OF m, of "appendString_loop (drop (sz - 1) src)"]
          by (auto simp del: unquoteBytes.simps DecodeRune.simps)
      qed
    qed
  qed
qed

lemma tokenize_Marshal:
  "tokenize (fst (json_Marshal v))
     = Some [TLBrace, TString info_name, TColon, TString (appendString_loop (Info v)), TRBrace]"
proof -
  let ?body = "appendString_loop (Info v)"
  have sp: "string_span (?body @ 0x22 # [0x7D]) = Some (length ?body)"
    by (rule string_span_loop)
  have t1: "tokenize (0x22 # ?body @ 0x22 # [0x7D]) = Some [TString ?body, TRBrace]"
    using sp by (simp add: isSpace_def del: string_span.simps)
  have "fst (json_Marshal v) = [0x7B, 0x22, 0x69, 0x6E, 0x66, 0x6F, 0x22, 0x3A] @ (0x22 # ?body @ 0x22 # [0x7D])"
    by (simp add: json_Marshal_def info_name_def appendString_def)
  then show ?thesis using t1
    by (simp add: isSpace_def info_name_def del: tokenize.simps(2))
       (simp add: isSpace_def)
qed

lemma unquote_info_name: "unquoteBytes info_name = Some info_name"
  by (simp add: info_name_def)

lemma checkValid_Marshal:
  "checkValid (fst (json_Marshal v)) = Some (JObject [(info_name, JString (appendString_loop (Info v)))])"
  by (simp add: checkValid_def tokenize_Marshal step_def beginValue_def beginString_def
      maxNestingDepth_def)

lemma Unmarshal_Marshal:
  "json_Unmarshal (fst (json_Marshal v)) w = (w\<lparr>Info := coerceUTF8 (Info v)\<rparr>, None)"
  by (simp add: json_Unmarshal_def checkValid_Marshal unquote_info_name unquote_loop)
     (simp add: foldsToInfo_def info_name_def toUpper_def)

section \<open>Push and Pull around the copy\<close>

lemma stage_no_error: "snd (stage L ref p) = None"
  by (simp add: stage_def Let_def Memory_Add_def json_Marshal_def buildConfigDescriptor_def
      GenerateManifest_def Memory_StoreManifest_def)

lemma Push_Some:
  "Push L net e r ref (Some p)
     = Returns (case Copy_to_registry L net (registry e) (fst (stage L ref p)) ref r of
                  (h, r', err) \<Rightarrow> (e\<lparr>registry := h\<rparr>, r', err))"
  using stage_no_error [of L ref p]
  by (cases "stage L ref p") (auto simp: Push_def split: prod.splits)

lemma Copy_from_registry_handle:
  "fst (Copy_from_registry L net h r ref to) = h"
  by (simp add: Copy_from_registry_def split: option.splits)


lemma registry_same: "e\<lparr>registry := registry e\<rparr> = (e::ebpfResgistry)"
  by (cases e) simp

lemma Pull_net_error:
  "Pull L (Some err) e r ref = Returns (e, None, Some err)"
  by (simp add: Pull_def Copy_from_registry_def)

lemma Pull_after_copy:
  assumes "Copy_from_registry L net (registry e) r ref NewMemory = (h, ms, None)"
  shows "Pull L net e r ref =
    (case Memory_GetByName ms ebpfFileName of
       None \<Rightarrow> Returns (e, None, Some (errorString ''could not find ebpf bytes in manifest''))
     | Some (_, ebpfBytes) \<Rightarrow>
         (case Memory_GetByName ms configName of
            None \<Rightarrow>
              Returns (e, None, Some (errorString ''could not find ebpf bytes in manifest''))
          | Some (_, configBytes) \<Rightarrow>
              (case json_Unmarshal configBytes \<lparr>Info = []\<rparr> of
                 (cfg, Some err) \<Rightarrow> Returns (e, None, Some err)
               | (cfg, None) \<Rightarrow>
                   Returns (e, Some \<lparr>ProgramFileBytes = ebpfBytes, EbpfConfig = cfg\<rparr>, None))))"
proof -
  have "h = registry e" using Copy_from_registry_handle [of L net "registry e" r ref NewMemory] assms
    by simp
  then show ?thesis using assms
    by (simp add: Pull_def registry_same split: option.splits prod.splits)
qed

lemma Pull_copy_error:
  assumes "Copy_from_registry L net (registry e) r ref NewMemory = (h, ms, Some err)"
  shows "Pull L net e r ref = Returns (e, None, Some err)"
proof -
  have "h = registry e" using Copy_from_registry_handle [of L net "registry e" r ref NewMemory] assms
    by simp
  then show ?thesis using assms
    by (simp add: Pull_def registry_same split: option.splits prod.splits)
qed

lemma fetch_all_fst: "fetch_all f ds = Some kids \<Longrightarrow> map fst kids = ds"
  by (induction ds arbitrary: kids) (auto split: option.splits)

lemma nameMap_Memory_Set:
  "ResolveName d \<noteq> Some name \<Longrightarrow> nameMap (Memory_Set s d c) name = nameMap s name"
  by (auto simp: Memory_Set_def split: option.splits)

lemma nameMap_set_all:
  "\<forall>d \<in> set (map fst kids). ResolveName d \<noteq> Some name
    \<Longrightarrow> nameMap (set_all kids s) name = nameMap s name"
  by (induction kids arbitrary: s) (auto simp: nameMap_Memory_Set)

lemma has_entry_iff: "has_entry ds name \<longleftrightarrow> (\<exists>d \<in> set ds. ResolveName d = Some name)"
  by (simp add: has_entry_def list_ex_iff)

lemma Copy_from_registry_nameMap:
  assumes "Copy_from_registry L net h r ref NewMemory = (h', ms, None)"
    and "entries L r ref = Some ds" and "\<not> has_entry ds name"
  shows "nameMap ms name = None"
proof -
  from assms(1) have net: "net = None"
    by (auto simp: Copy_from_registry_def split: option.splits)
  from assms(1,2) obtain root body kids where
    r: "Resolve r ref = Some root" and b: "blobs r (Digest root) = Some body"
    and k: "fetch_all (\<lambda>d. blobs r (Digest d)) ds = Some kids"
    and ms: "ms = set_all kids ((Memory_Set NewMemory root body)\<lparr>refMap := (refMap NewMemory)(ref \<mapsto> root)\<rparr>)"
    by (auto simp: Copy_from_registry_def entries_def net split: option.splits)
  have "Annotations root = None" using r by (auto simp: Resolve_def split: option.splits)
  then have "ResolveName root = None" by (simp add: ResolveName_def)
  then have "nameMap ((Memory_Set NewMemory root body)\<lparr>refMap := (refMap NewMemory)(ref \<mapsto> root)\<rparr>) name = None"
    by (simp add: Memory_Set_def NewMemory_def)
  moreover have "\<forall>d \<in> set (map fst kids). ResolveName d \<noteq> Some name"
    using fetch_all_fst [OF k] assms(3) by (simp add: has_entry_iff)
  ultimately show ?thesis unfolding ms by (simp add: nameMap_set_all)
qed

lemma GetByName_no_name: "nameMap ms name = None \<Longrightarrow> Memory_GetByName ms name = None"
  by (simp add: Memory_GetByName_def)

section \<open>The pusher\<close>

lemma push_blob_tracker:
  "push_blob L (h, r) (d, c) = (h', r') \<Longrightarrow> tracker h' = insert (MakeRefKey L d) (tracker h)"
  by (auto simp: push_blob_def split: if_splits)

lemma push_blob_tags:
  "push_blob L (h, r) (d, c) = (h', r') \<Longrightarrow> tags r' = tags r"
  by (auto simp: push_blob_def split: if_splits)

lemma push_blob_holds:
  "push_blob L (h, r) (d, c) = (h', r')
    \<Longrightarrow> (MakeRefKey L d \<in> tracker h \<longrightarrow> blobs r (Digest d) = Some c)
    \<Longrightarrow> blobs r' (Digest d) = Some c"
  by (auto simp: push_blob_def split: if_splits)

lemma push_blob_other:
  "push_blob L (h, r) (d, c) = (h', r') \<Longrightarrow> blobs r x = Some y
    \<Longrightarrow> (x = Digest d \<longrightarrow> y = c) \<Longrightarrow> blobs r' x = Some y"
  by (auto simp: push_blob_def split: if_splits)

lemma push_root_tracker:
  "push_root L ref (h, r) (d, c) = (h', r') \<Longrightarrow> tracker h' = insert (MakeRefKey L d) (tracker h)"
  by (auto simp: push_root_def split: if_splits)

lemma push_root_skip:
  "MakeRefKey L d \<in> tracker h \<Longrightarrow> push_root L ref (h, r) (d, c) = (h, r)"
  by (simp add: push_root_def)

lemma push_root_send:
  "MakeRefKey L d \<notin> tracker h \<Longrightarrow> push_root L ref (h, r) (d, c)
     = (h\<lparr>tracker := insert (MakeRefKey L d) (tracker h)\<rparr>,
        r\<lparr>blobs := (blobs r)(Digest d \<mapsto> c), tags := (tags r)(ref \<mapsto> d)\<rparr>)"
  by (simp add: push_root_def)

section \<open>A push followed by a pull\<close>

lemma stage_store:
  fixes L ref p
  defines "B \<equiv> ProgramFileBytes p"
    and "cb \<equiv> fst (json_Marshal (EbpfConfig p))"
    and "m \<equiv> staged_manifest L p"
  defines "mb \<equiv> manifest_Marshal L m"
  defines "md \<equiv> \<lparr>MediaType = MediaTypeImageManifest, Digest = FromBytes L mb,
             Size = int (length mb), Annotations = None\<rparr>"
  shows "stage L ref p =
    (\<lparr>m_descriptor = [FromBytes L B \<mapsto> hd (Layers m), FromBytes L cb \<mapsto> Config m,
                      FromBytes L mb \<mapsto> md],
      m_content = [FromBytes L B \<mapsto> B, FromBytes L cb \<mapsto> cb, FromBytes L mb \<mapsto> mb],
      nameMap = [ebpfFileName \<mapsto> hd (Layers m), configName \<mapsto> Config m],
      refMap = [ref \<mapsto> md]\<rparr>, None)"
  unfolding B_def cb_def m_def mb_def md_def
  by (simp add: stage_def staged_manifest_def Let_def Memory_Add_def Memory_Set_def
      NewMemory_def ResolveName_def buildConfigDescriptor_def GenerateManifest_def
      Memory_StoreManifest_def json_Marshal_def ebpfFileName_def configName_def
      eBPFMediaType_def MediaTypeImageManifest_def)

lemma staged_root_eq:
  "staged_root L p = \<lparr>MediaType = MediaTypeImageManifest,
      Digest = FromBytes L (manifest_Marshal L (staged_manifest L p)),
      Size = int (length (manifest_Marshal L (staged_manifest L p))), Annotations = None\<rparr>"
  by (simp add: staged_root_def GenerateManifest_def Let_def staged_manifest_def)

lemma inj_on3:
  assumes "inj_on f (set [a, b, c])"
  shows "f b = f a \<longrightarrow> b = a" "f c = f a \<longrightarrow> c = a" "f c = f b \<longrightarrow> c = b"
  using assms by (auto simp: inj_on_def)

lemma refPrefix_manifest: "refPrefix L MediaTypeImageManifest = ''manifest-''"
  by (simp add: refPrefix_def)

lemma refPrefix_staged:
  "refPrefix L configMediaType \<noteq> ''manifest-''" "refPrefix L eBPFMediaType \<noteq> ''manifest-''"
  by (simp_all add: refPrefix_def configMediaType_def eBPFMediaType_def
      MediaTypeImageManifest_def MediaTypeDockerSchema2Manifest_def)

text \<open>What a push of a package leaves, when what the handle has recorded is still held.\<close>

lemma Push_sends:
  assumes codec: "manifest_Unmarshal L (manifest_Marshal L (staged_manifest L p))
                    = Some (staged_manifest L p)"
    and inj: "inj_on (FromBytes L) (set (staged_blobs L p))"
    and held: "pushed_still_held L (registry e) r ref p"
  shows "\<exists>e' r'. Push L None e r ref (Some p) = Returns (e', r', None)
    \<and> Resolve r' ref = Some (staged_root L p)
    \<and> blobs r' (Digest (staged_root L p)) = Some (manifest_Marshal L (staged_manifest L p))
    \<and> blobs r' (FromBytes L (fst (json_Marshal (EbpfConfig p))))
        = Some (fst (json_Marshal (EbpfConfig p)))
    \<and> blobs r' (FromBytes L (ProgramFileBytes p)) = Some (ProgramFileBytes p)"
proof -
  define B where "B = ProgramFileBytes p"
  define cb where "cb = fst (json_Marshal (EbpfConfig p))"
  define m where "m = staged_manifest L p"
  define mb where "mb = manifest_Marshal L m"
  define md where "md = staged_root L p"
  define pd where "pd = hd (Layers m)"
  define cd where "cd = Config m"
  define ms where "ms = fst (stage L ref p)"
  define h where "h = registry e"
  have mdr: "md = \<lparr>MediaType = MediaTypeImageManifest, Digest = FromBytes L mb,
             Size = int (length mb), Annotations = None\<rparr>"
    by (simp add: md_def staged_root_eq mb_def m_def)
  have st: "stage L ref p = (ms, None)"
    using stage_no_error [of L ref p] by (cases "stage L ref p") (simp add: ms_def)
  have msr: "ms =
    \<lparr>m_descriptor = [FromBytes L B \<mapsto> pd, FromBytes L cb \<mapsto> cd, FromBytes L mb \<mapsto> md],
      m_content = [FromBytes L B \<mapsto> B, FromBytes L cb \<mapsto> cb, FromBytes L mb \<mapsto> mb],
      nameMap = [ebpfFileName \<mapsto> pd, configName \<mapsto> cd],
      refMap = [ref \<mapsto> md]\<rparr>"
    unfolding ms_def mdr B_def cb_def m_def mb_def pd_def cd_def
    by (simp add: stage_store)
  have blobs: "staged_blobs L p = [B, cb, mb]"
    by (simp add: staged_blobs_def B_def cb_def mb_def m_def)
  note k = inj_on3 [OF inj [unfolded blobs]]
  have layers: "Config m = cd" "Layers m = [pd]"
    by (simp_all add: cd_def pd_def m_def staged_manifest_def)
  have dg: "Digest pd = FromBytes L B" "Digest cd = FromBytes L cb" "Digest md = FromBytes L mb"
    by (simp_all add: pd_def cd_def mdr m_def staged_manifest_def B_def cb_def
        Memory_Add_def buildConfigDescriptor_def Let_def)
  have mt: "MediaType md = MediaTypeImageManifest" "md\<lparr>Annotations := None\<rparr> = md"
    "MediaType cd = configMediaType" "MediaType pd = eBPFMediaType"
    by (simp_all add: mdr pd_def cd_def m_def staged_manifest_def Memory_Add_def
        buildConfigDescriptor_def Let_def eBPFMediaType_def)
  have keys: "MakeRefKey L md \<noteq> MakeRefKey L cd" "MakeRefKey L md \<noteq> MakeRefKey L pd"
    using refPrefix_staged [of L] by (auto simp: MakeRefKey_def mt refPrefix_manifest)
  have keq: "MakeRefKey L pd = MakeRefKey L cd \<longrightarrow> B = cb"
    using k by (auto simp: MakeRefKey_def dg)
  have hp: "MakeRefKey L pd \<in> tracker h \<longrightarrow> blobs r (FromBytes L B) = Some B"
    and hc: "MakeRefKey L cd \<in> tracker h \<longrightarrow> blobs r (FromBytes L cb) = Some cb"
    and hm: "MakeRefKey L md \<in> tracker h
         \<longrightarrow> Resolve r ref = Some md \<and> blobs r (FromBytes L mb) = Some mb"
    using held
    unfolding pushed_still_held_def h_def pd_def cd_def md_def m_def B_def cb_def mb_def
    by (simp_all add: staged_root_eq)
  have ch: "children L md mb = Some [cd, pd]"
    using codec by (simp add: children_def mt mb_def m_def [symmetric] layers)
  have f1: "Memory_Fetch ms md = Some mb" "Memory_Fetch ms cd = Some cb"
      "Memory_Fetch ms pd = Some B"
    using k by (auto simp: Memory_Fetch_def msr dg)
  have rm: "refMap ms ref = Some md" by (simp add: msr)
  obtain h1 r1 where p1: "push_blob L (h, r) (cd, cb) = (h1, r1)"
    by (cases "push_blob L (h, r) (cd, cb)")
  obtain h2 r2 where p2: "push_blob L (h1, r1) (pd, B) = (h2, r2)"
    by (cases "push_blob L (h1, r1) (pd, B)")
  obtain h3 r3 where p3: "push_root L ref (h2, r2) (md, mb) = (h3, r3)"
    by (cases "push_root L ref (h2, r2) (md, mb)")
  have t1: "tracker h1 = insert (MakeRefKey L cd) (tracker h)"
    using push_blob_tracker [OF p1] .
  have t2: "tracker h2 = insert (MakeRefKey L pd) (tracker h1)"
    using push_blob_tracker [OF p2] .
  have c1: "blobs r1 (FromBytes L cb) = Some cb"
    using push_blob_holds [OF p1] hc by (simp add: dg)
  have b1: "MakeRefKey L pd \<in> tracker h1 \<longrightarrow> blobs r1 (FromBytes L B) = Some B"
  proof
    assume "MakeRefKey L pd \<in> tracker h1"
    then consider "MakeRefKey L pd = MakeRefKey L cd" | "MakeRefKey L pd \<in> tracker h"
      unfolding t1 by auto
    then show "blobs r1 (FromBytes L B) = Some B"
    proof cases
      case 1
      then have "B = cb" using keq by simp
      then show ?thesis using c1 by simp
    next
      case 2
      then have "blobs r (FromBytes L B) = Some B" using hp by simp
      then show ?thesis using push_blob_other [OF p1, of "FromBytes L B" B] k by (auto simp: dg)
    qed
  qed
  have b2: "blobs r2 (FromBytes L B) = Some B"
    using push_blob_holds [OF p2] b1 by (simp add: dg)
  have c2: "blobs r2 (FromBytes L cb) = Some cb"
    using push_blob_other [OF p2 c1] k by (auto simp: dg)
  have tg: "tags r2 = tags r"
    using push_blob_tags [OF p1] push_blob_tags [OF p2] by simp
  have in2: "MakeRefKey L md \<in> tracker h2 \<longleftrightarrow> MakeRefKey L md \<in> tracker h"
    unfolding t2 t1 using keys by auto
  have end3: "Resolve r3 ref = Some md \<and> blobs r3 (FromBytes L mb) = Some mb
      \<and> blobs r3 (FromBytes L cb) = Some cb \<and> blobs r3 (FromBytes L B) = Some B"
  proof (cases "MakeRefKey L md \<in> tracker h")
    case True
    then have "r3 = r2" using p3 push_root_skip [of L md h2 ref r2 mb] in2 by simp
    moreover have "Resolve r2 ref = Some md" using True hm tg by (simp add: Resolve_def)
    moreover have "blobs r1 (FromBytes L mb) = Some mb"
      using push_blob_other [OF p1, of "FromBytes L mb" mb] True hm k by (auto simp: dg)
    then have "blobs r2 (FromBytes L mb) = Some mb"
      using push_blob_other [OF p2, of "FromBytes L mb" mb] k by (auto simp: dg)
    ultimately show ?thesis using b2 c2 by simp
  next
    case False
    then have "r3 = r2\<lparr>blobs := (blobs r2)(Digest md \<mapsto> mb), tags := (tags r2)(ref \<mapsto> md)\<rparr>"
      using p3 push_root_send [of L md h2 ref r2 mb] in2 by simp
    then show ?thesis using b2 c2 k by (auto simp: Resolve_def mt dg)
  qed
  have cp: "Copy_to_registry L None h ms ref r = (h3, r3, None)"
    by (simp add: Copy_to_registry_def rm ch f1 p1 p2 p3)
  have "Push L None e r ref (Some p) = Returns (e\<lparr>registry := h3\<rparr>, r3, None)"
    by (simp add: Push_def st cp h_def [symmetric])
  then show ?thesis
    using end3 unfolding md_def [symmetric] mb_def [symmetric] m_def [symmetric]
      cb_def [symmetric] B_def [symmetric]
    by (auto simp: dg)
qed

text \<open>What a pull returns from a remote that holds a package at the reference.\<close>

lemma Pull_fetches:
  assumes codec: "manifest_Unmarshal L (manifest_Marshal L (staged_manifest L p))
                    = Some (staged_manifest L p)"
    and inj: "inj_on (FromBytes L) (set (staged_blobs L p))"
    and root: "Resolve r ref = Some (staged_root L p)"
    and b1: "blobs r (Digest (staged_root L p)) = Some (manifest_Marshal L (staged_manifest L p))"
    and b2: "blobs r (FromBytes L (fst (json_Marshal (EbpfConfig p))))
               = Some (fst (json_Marshal (EbpfConfig p)))"
    and b3: "blobs r (FromBytes L (ProgramFileBytes p)) = Some (ProgramFileBytes p)"
  shows "Pull L None e r ref
      = Returns (e, Some \<lparr>ProgramFileBytes = ProgramFileBytes p,
                          EbpfConfig = \<lparr>Info = coerceUTF8 (Info (EbpfConfig p))\<rparr>\<rparr>, None)"
proof -
  define B where "B = ProgramFileBytes p"
  define cb where "cb = fst (json_Marshal (EbpfConfig p))"
  define m where "m = staged_manifest L p"
  define mb where "mb = manifest_Marshal L m"
  define md where "md = staged_root L p"
  define pd where "pd = hd (Layers m)"
  define cd where "cd = Config m"
  have mdr: "md = \<lparr>MediaType = MediaTypeImageManifest, Digest = FromBytes L mb,
             Size = int (length mb), Annotations = None\<rparr>"
    by (simp add: md_def staged_root_eq mb_def m_def)
  have blobs: "staged_blobs L p = [B, cb, mb]"
    by (simp add: staged_blobs_def B_def cb_def mb_def m_def)
  note k = inj_on3 [OF inj [unfolded blobs]]
  have layers: "Config m = cd" "Layers m = [pd]"
    by (simp_all add: cd_def pd_def m_def staged_manifest_def)
  have dg: "Digest pd = FromBytes L B" "Digest cd = FromBytes L cb" "Digest md = FromBytes L mb"
    by (simp_all add: pd_def cd_def mdr m_def staged_manifest_def B_def cb_def
        Memory_Add_def buildConfigDescriptor_def Let_def)
  have nm: "ResolveName pd = Some ebpfFileName" "ResolveName cd = Some configName"
      "ResolveName md = None"
    by (simp_all add: pd_def cd_def mdr m_def staged_manifest_def ResolveName_def
        Memory_Add_def buildConfigDescriptor_def Let_def ebpfFileName_def)
  have names: "ebpfFileName \<noteq> []" "configName \<noteq> []" "ebpfFileName \<noteq> configName"
    by (simp_all add: ebpfFileName_def configName_def)
  have mt: "MediaType md = MediaTypeImageManifest" by (simp add: mdr)
  have ch: "children L md mb = Some [cd, pd]"
    using codec by (simp add: children_def mt mb_def m_def [symmetric] layers)
  have rs: "Resolve r ref = Some md" using root by (simp add: md_def)
  have bl: "blobs r (Digest md) = Some mb" "blobs r (Digest cd) = Some cb"
      "blobs r (Digest pd) = Some B"
    using b1 b2 b3 by (simp_all add: dg md_def mb_def m_def cb_def B_def)
  define ms2 where "ms2 = set_all [(cd, cb), (pd, B)]
      ((Memory_Set NewMemory md mb)\<lparr>refMap := (refMap NewMemory)(ref \<mapsto> md)\<rparr>)"
  have cf: "Copy_from_registry L None (registry e) r ref NewMemory = (registry e, ms2, None)"
    by (simp add: Copy_from_registry_def rs bl ch ms2_def)
  have g1: "Memory_GetByName ms2 ebpfFileName = Some (pd, B)"
    using names by (simp add: ms2_def Memory_GetByName_def Memory_Set_def nm dg)
  have g2: "Memory_GetByName ms2 configName = Some (cd, cb)"
    using names k by (auto simp: ms2_def Memory_GetByName_def Memory_Set_def nm dg NewMemory_def)
  show ?thesis
    by (simp add: Pull_after_copy [OF cf] g1 g2 cb_def Unmarshal_Marshal B_def)
qed

lemma roundtrip:
  assumes codec: "manifest_Unmarshal L (manifest_Marshal L (staged_manifest L p))
                    = Some (staged_manifest L p)"
    and inj: "inj_on (FromBytes L) (set (staged_blobs L p))"
    and held: "pushed_still_held L (registry e) r ref p"
  shows "\<exists>e' r'. Push L None e r ref (Some p) = Returns (e', r', None)
    \<and> Pull L None e' r' ref
        = Returns (e', Some \<lparr>ProgramFileBytes = ProgramFileBytes p,
                             EbpfConfig = \<lparr>Info = coerceUTF8 (Info (EbpfConfig p))\<rparr>\<rparr>, None)"
proof -
  obtain e' r' where "Push L None e r ref (Some p) = Returns (e', r', None)"
    and "Resolve r' ref = Some (staged_root L p)"
    and "blobs r' (Digest (staged_root L p)) = Some (manifest_Marshal L (staged_manifest L p))"
    and "blobs r' (FromBytes L (fst (json_Marshal (EbpfConfig p))))
        = Some (fst (json_Marshal (EbpfConfig p)))"
    and "blobs r' (FromBytes L (ProgramFileBytes p)) = Some (ProgramFileBytes p)"
    using Push_sends [OF assms] by blast
  then show ?thesis using Pull_fetches [OF codec inj, of r' ref e'] by blast
qed

lemma Push_steps:
  assumes codec: "manifest_Unmarshal L (manifest_Marshal L (staged_manifest L p))
                    = Some (staged_manifest L p)"
    and inj: "inj_on (FromBytes L) (set (staged_blobs L p))"
  shows "Push L None e r ref (Some p)
    = Returns
        (case push_root L ref
                (push_blob L
                   (push_blob L (registry e, r)
                      (Config (staged_manifest L p), fst (json_Marshal (EbpfConfig p))))
                   (hd (Layers (staged_manifest L p)), ProgramFileBytes p))
                (staged_root L p, manifest_Marshal L (staged_manifest L p)) of
           (h, r') \<Rightarrow> (e\<lparr>registry := h\<rparr>, r', None))"
proof -
  define B where "B = ProgramFileBytes p"
  define cb where "cb = fst (json_Marshal (EbpfConfig p))"
  define m where "m = staged_manifest L p"
  define mb where "mb = manifest_Marshal L m"
  define md where "md = staged_root L p"
  define pd where "pd = hd (Layers m)"
  define cd where "cd = Config m"
  define ms where "ms = fst (stage L ref p)"
  have mdr: "md = \<lparr>MediaType = MediaTypeImageManifest, Digest = FromBytes L mb,
             Size = int (length mb), Annotations = None\<rparr>"
    by (simp add: md_def staged_root_eq mb_def m_def)
  have st: "stage L ref p = (ms, None)"
    using stage_no_error [of L ref p] by (cases "stage L ref p") (simp add: ms_def)
  have msr: "ms =
    \<lparr>m_descriptor = [FromBytes L B \<mapsto> pd, FromBytes L cb \<mapsto> cd, FromBytes L mb \<mapsto> md],
      m_content = [FromBytes L B \<mapsto> B, FromBytes L cb \<mapsto> cb, FromBytes L mb \<mapsto> mb],
      nameMap = [ebpfFileName \<mapsto> pd, configName \<mapsto> cd],
      refMap = [ref \<mapsto> md]\<rparr>"
    unfolding ms_def mdr B_def cb_def m_def mb_def pd_def cd_def
    by (simp add: stage_store)
  have blobs: "staged_blobs L p = [B, cb, mb]"
    by (simp add: staged_blobs_def B_def cb_def mb_def m_def)
  note k = inj_on3 [OF inj [unfolded blobs]]
  have layers: "Config m = cd" "Layers m = [pd]"
    by (simp_all add: cd_def pd_def m_def staged_manifest_def)
  have dg: "Digest pd = FromBytes L B" "Digest cd = FromBytes L cb" "Digest md = FromBytes L mb"
    by (simp_all add: pd_def cd_def mdr m_def staged_manifest_def B_def cb_def
        Memory_Add_def buildConfigDescriptor_def Let_def)
  have mt: "MediaType md = MediaTypeImageManifest" by (simp add: mdr)
  have ch: "children L md mb = Some [cd, pd]"
    using codec by (simp add: children_def mt mb_def m_def [symmetric] layers)
  have f1: "Memory_Fetch ms md = Some mb" "Memory_Fetch ms cd = Some cb"
      "Memory_Fetch ms pd = Some B"
    using k by (auto simp: Memory_Fetch_def msr dg)
  have rm: "refMap ms ref = Some md" by (simp add: msr)
  have "Copy_to_registry L None (registry e) ms ref r
      = (case push_root L ref (push_blob L (push_blob L (registry e, r) (cd, cb)) (pd, B))
                (md, mb) of (h, r') \<Rightarrow> (h, r', None))"
    by (simp add: Copy_to_registry_def rm ch f1)
  then show ?thesis
    unfolding md_def [symmetric] mb_def [symmetric] m_def [symmetric] cb_def [symmetric]
      B_def [symmetric] pd_def [symmetric] cd_def [symmetric]
    by (simp add: Push_def st split: prod.splits)
qed

lemma tracker_same: "k \<in> tracker h \<Longrightarrow> h\<lparr>tracker := insert k (tracker h)\<rparr> = h"
  by (cases h) (simp add: insert_absorb)

lemma Push_skips:
  assumes codec: "manifest_Unmarshal L (manifest_Marshal L (staged_manifest L p))
                    = Some (staged_manifest L p)"
    and inj: "inj_on (FromBytes L) (set (staged_blobs L p))"
    and "MakeRefKey L (Config (staged_manifest L p)) \<in> tracker (registry e)"
    and "MakeRefKey L (hd (Layers (staged_manifest L p))) \<in> tracker (registry e)"
    and "MakeRefKey L (staged_root L p) \<in> tracker (registry e)"
  shows "Push L None e r ref (Some p) = Returns (e, r, None)"
  using assms(3-5)
  by (simp add: Push_steps [OF codec inj] push_blob_def push_root_def registry_same)

lemma Push_tracker:
  assumes codec: "manifest_Unmarshal L (manifest_Marshal L (staged_manifest L p))
                    = Some (staged_manifest L p)"
    and inj: "inj_on (FromBytes L) (set (staged_blobs L p))"
    and "Push L None e r ref (Some p) = Returns (e', r', err)"
  shows "tracker (registry e')
    = insert (MakeRefKey L (staged_root L p))
        (insert (MakeRefKey L (hd (Layers (staged_manifest L p))))
           (insert (MakeRefKey L (Config (staged_manifest L p))) (tracker (registry e))))"
proof -
  let ?c = "(Config (staged_manifest L p), fst (json_Marshal (EbpfConfig p)))"
  let ?p = "(hd (Layers (staged_manifest L p)), ProgramFileBytes p)"
  let ?m = "(staged_root L p, manifest_Marshal L (staged_manifest L p))"
  obtain h1 r1 where p1: "push_blob L (registry e, r) ?c = (h1, r1)"
    by (cases "push_blob L (registry e, r) ?c")
  obtain h2 r2 where p2: "push_blob L (h1, r1) ?p = (h2, r2)"
    by (cases "push_blob L (h1, r1) ?p")
  obtain h3 r3 where p3: "push_root L ref (h2, r2) ?m = (h3, r3)"
    by (cases "push_root L ref (h2, r2) ?m")
  have "e' = e\<lparr>registry := h3\<rparr>"
    using assms(3) by (simp add: Push_steps [OF codec inj] p1 p2 p3)
  then show ?thesis
    using push_blob_tracker [OF p1] push_blob_tracker [OF p2] push_root_tracker [OF p3]
    by simp
qed

lemma Push_tracker_keys:
  assumes codec: "manifest_Unmarshal L (manifest_Marshal L (staged_manifest L p))
                    = Some (staged_manifest L p)"
    and inj: "inj_on (FromBytes L) (set (staged_blobs L p))"
    and "Push L None e r ref (Some p) = Returns (e', r', err)"
  shows "tracker (registry e') = set (staged_keys L p) \<union> tracker (registry e)"
  using Push_tracker [OF assms] by (auto simp: staged_keys_def)

lemma fresh_held: "tracker h = {} \<Longrightarrow> pushed_still_held L h r ref p"
  by (simp add: pushed_still_held_def)

lemma unrecorded_held:
  "set (staged_keys L p) \<inter> tracker h = {} \<Longrightarrow> pushed_still_held L h r ref p"
  by (simp add: pushed_still_held_def staged_keys_def)

text \<open>
  A handle that has pushed a package, then another to the same reference, sends nothing
  when it is given the first again: the reference stays with the second.
\<close>

lemma stale_push:
  assumes cA: "manifest_Unmarshal L (manifest_Marshal L (staged_manifest L A))
                 = Some (staged_manifest L A)"
    and iA: "inj_on (FromBytes L) (set (staged_blobs L A))"
    and cB: "manifest_Unmarshal L (manifest_Marshal L (staged_manifest L B))
               = Some (staged_manifest L B)"
    and iB: "inj_on (FromBytes L) (set (staged_blobs L B))"
    and fresh: "tracker (registry e) = {}"
    and keys: "set (staged_keys L B) \<inter> set (staged_keys L A) = {}"
  shows "\<exists>e1 r1 e2 r2.
      Push L None e r ref (Some A) = Returns (e1, r1, None)
    \<and> Push L None e1 r1 ref (Some B) = Returns (e2, r2, None)
    \<and> Push L None e2 r2 ref (Some A) = Returns (e2, r2, None)
    \<and> tracker (registry e2) = set (staged_keys L B) \<union> set (staged_keys L A)
    \<and> Resolve r2 ref = Some (staged_root L B)
    \<and> Pull L None e2 r2 ref
        = Returns (e2, Some \<lparr>ProgramFileBytes = ProgramFileBytes B,
                             EbpfConfig = \<lparr>Info = coerceUTF8 (Info (EbpfConfig B))\<rparr>\<rparr>, None)"
proof -
  obtain e1 r1 where p1: "Push L None e r ref (Some A) = Returns (e1, r1, None)"
    using Push_sends [OF cA iA fresh_held [OF fresh]] by blast
  have t1: "tracker (registry e1) = set (staged_keys L A)"
    using Push_tracker_keys [OF cA iA p1] fresh by simp
  have "pushed_still_held L (registry e1) r1 ref B"
    using keys by (simp add: unrecorded_held t1)
  then obtain e2 r2 where p2: "Push L None e1 r1 ref (Some B) = Returns (e2, r2, None)"
    and rs: "Resolve r2 ref = Some (staged_root L B)"
    and b1: "blobs r2 (Digest (staged_root L B)) = Some (manifest_Marshal L (staged_manifest L B))"
    and b2: "blobs r2 (FromBytes L (fst (json_Marshal (EbpfConfig B))))
        = Some (fst (json_Marshal (EbpfConfig B)))"
    and b3: "blobs r2 (FromBytes L (ProgramFileBytes B)) = Some (ProgramFileBytes B)"
    using Push_sends [OF cB iB] by blast
  have t2: "tracker (registry e2) = set (staged_keys L B) \<union> set (staged_keys L A)"
    using Push_tracker_keys [OF cB iB p2] t1 by simp
  have p3: "Push L None e2 r2 ref (Some A) = Returns (e2, r2, None)"
    by (rule Push_skips [OF cA iA]) (simp_all add: t2 staged_keys_def)
  have p4: "Pull L None e2 r2 ref
        = Returns (e2, Some \<lparr>ProgramFileBytes = ProgramFileBytes B,
                             EbpfConfig = \<lparr>Info = coerceUTF8 (Info (EbpfConfig B))\<rparr>\<rparr>, None)"
    by (rule Pull_fetches [OF cB iB rs b1 b2 b3])
  show ?thesis using p1 p2 p3 t2 rs p4 by blast
qed







subsection \<open>The concrete instances\<close>

lemmas ex_defs = ex_dig_def ex_digest_only_def ex_codec_def ex_lib_def ex_desc_def
  ex_program_def ex_config_def ex_config_bad_def ex_remote_def ex_empty_def ex_manifest_def
  configName_def ebpfFileName_def configMediaType_def eBPFMediaType_def AnnotationTitle_def
  MediaTypeImageManifest_def

lemmas copy_defs = Copy_from_registry_def Resolve_def children_def entries_def Memory_Set_def
  NewMemory_def ResolveName_def Memory_GetByName_def has_entry_def

lemmas json_defs = json_Unmarshal_def checkValid_def step_def beginValue_def beginString_def
  maxNestingDepth_def foldsToInfo_def toUpper_def saveError_def isSpace_def isDigit_def
  number_span_def digits_span_def frac_span_def exp_span_def isHex_def hexval_def
  unescape_def

lemma staged_manifest_FromBytes:
  "FromBytes L = FromBytes L' \<Longrightarrow> staged_manifest L p = staged_manifest L' p"
  by (simp add: staged_manifest_def buildConfigDescriptor_def Memory_Add_def Let_def)

lemma ex_lib_codec:
  "manifest_Unmarshal (ex_lib p) (manifest_Marshal (ex_lib p) (staged_manifest (ex_lib p) p))
     = Some (staged_manifest (ex_lib p) p)"
proof -
  have "staged_manifest (ex_lib p) p = staged_manifest ex_digest_only p"
    by (rule staged_manifest_FromBytes) (simp add: ex_lib_def ex_codec_def ex_digest_only_def)
  then show ?thesis by (simp add: ex_lib_def ex_codec_def)
qed

lemma ex_lib_blobs:
  "staged_blobs (ex_lib p) p = [ProgramFileBytes p, fst (json_Marshal (EbpfConfig p)), [0x6D]]"
  by (simp add: staged_blobs_def ex_lib_def ex_codec_def)

lemma ex_dig_eq: "ex_dig a = ex_dig b \<longleftrightarrow> length a = length b"
  by (auto simp: ex_dig_def dest: arg_cong [where f = length])

lemma ex_lib_inj:
  assumes "length (ProgramFileBytes p) \<noteq> 1"
    and "length (ProgramFileBytes p) \<noteq> length (appendString_loop (Info (EbpfConfig p))) + 11"
  shows "inj_on (FromBytes (ex_lib p)) (set (staged_blobs (ex_lib p) p))"
proof -
  have f: "FromBytes (ex_lib p) = ex_dig" by (simp add: ex_lib_def ex_codec_def)
  have l: "length (fst (json_Marshal (EbpfConfig p)))
      = length (appendString_loop (Info (EbpfConfig p))) + 11"
    by (simp add: json_Marshal_def info_name_def appendString_def)
  show ?thesis
    unfolding ex_lib_blobs f using assms l by (auto simp: inj_on_def ex_dig_eq)
qed


lemma ex_Unmarshal_config_bad:
  "json_Unmarshal ex_config_bad \<lparr>Info = []\<rparr> = (\<lparr>Info = [0x61]\<rparr>, Some UnmarshalTypeError)"
proof -
  have "tokenize ex_config_bad
      = Some [TLBrace, TString [0x69, 0x6E, 0x66, 0x6F], TColon, TString [0x61], TComma,
              TString [0x69, 0x6E, 0x66, 0x6F], TColon, TNumber [0x31], TRBrace]"
    by (simp add: ex_config_bad_def json_defs)
  then show ?thesis by (simp add: json_defs)
qed

text \<open>The library for two packages, when the sizes of their six blobs differ.\<close>

lemma ex_lib2_FromBytes: "FromBytes (ex_lib2 p q) = ex_dig"
  by (simp add: ex_lib2_def ex_codec_of_def)

lemma ex_lib2_manifest: "staged_manifest (ex_lib2 p q) x = staged_manifest ex_digest_only x"
  by (rule staged_manifest_FromBytes) (simp add: ex_lib2_FromBytes ex_digest_only_def)

lemma ex_lib2_Marshal: "manifest_Marshal (ex_lib2 p q) = ex_marshal"
  by (simp add: ex_lib2_def ex_codec_of_def)

lemma ex_lib2_blobs:
  "staged_blobs (ex_lib2 p q) x
     = [ProgramFileBytes x, fst (json_Marshal (EbpfConfig x)),
        ex_marshal (staged_manifest ex_digest_only x)]"
  by (simp add: staged_blobs_def ex_lib2_manifest ex_lib2_Marshal)

lemma ex_lib2_codec:
  assumes "distinct (ex_sizes p @ ex_sizes q)"
  shows "manifest_Unmarshal (ex_lib2 p q) (manifest_Marshal (ex_lib2 p q) (staged_manifest (ex_lib2 p q) p))
       = Some (staged_manifest (ex_lib2 p q) p)"
    and "manifest_Unmarshal (ex_lib2 p q) (manifest_Marshal (ex_lib2 p q) (staged_manifest (ex_lib2 p q) q))
       = Some (staged_manifest (ex_lib2 p q) q)"
proof -
  have "ex_marshal (staged_manifest ex_digest_only p) \<noteq> ex_marshal (staged_manifest ex_digest_only q)"
    using assms by (auto simp: ex_sizes_def dest: arg_cong [where f = length])
  then show "manifest_Unmarshal (ex_lib2 p q) (manifest_Marshal (ex_lib2 p q) (staged_manifest (ex_lib2 p q) p))
       = Some (staged_manifest (ex_lib2 p q) p)"
    and "manifest_Unmarshal (ex_lib2 p q) (manifest_Marshal (ex_lib2 p q) (staged_manifest (ex_lib2 p q) q))
       = Some (staged_manifest (ex_lib2 p q) q)"
    by (simp_all add: ex_lib2_manifest ex_lib2_Marshal) (simp_all add: ex_lib2_def ex_codec_of_def)
qed

lemma ex_lib2_inj:
  assumes "distinct (ex_sizes p @ ex_sizes q)"
  shows "inj_on (FromBytes (ex_lib2 p q)) (set (staged_blobs (ex_lib2 p q) p))"
    and "inj_on (FromBytes (ex_lib2 p q)) (set (staged_blobs (ex_lib2 p q) q))"
  using assms unfolding ex_lib2_blobs ex_lib2_FromBytes
  by (auto simp: inj_on_def ex_dig_eq ex_sizes_def)

lemma ex_lib2_keys:
  assumes "distinct (ex_sizes p @ ex_sizes q)"
  shows "set (staged_keys (ex_lib2 p q) q) \<inter> set (staged_keys (ex_lib2 p q) p) = {}"
proof -
  have d: "Digest (Config (staged_manifest ex_digest_only x)) = ex_dig (fst (json_Marshal (EbpfConfig x)))"
    "Digest (hd (Layers (staged_manifest ex_digest_only x))) = ex_dig (ProgramFileBytes x)"
    "Digest (staged_root (ex_lib2 p q) x) = ex_dig (ex_marshal (staged_manifest ex_digest_only x))"
    for x
    by (simp_all add: staged_manifest_def buildConfigDescriptor_def Memory_Add_def Let_def
        ex_digest_only_def staged_root_eq ex_lib2_FromBytes ex_lib2_Marshal
        ex_lib2_manifest [unfolded staged_manifest_def])
  show ?thesis
    using assms
    by (auto simp: staged_keys_def MakeRefKey_def ex_lib2_manifest d ex_dig_eq ex_sizes_def)
qed

lemma ex_marshal_length:
  "length (ex_marshal (staged_manifest ex_digest_only p))
     = length (ProgramFileBytes p) + length (fst (json_Marshal (EbpfConfig p))) + 2"
  by (simp add: ex_marshal_def staged_manifest_def buildConfigDescriptor_def Memory_Add_def
      Let_def ex_digest_only_def ex_dig_def)

lemma ex_Marshal_a: "fst (json_Marshal \<lparr>Info = [0x61]\<rparr>) = ex_config"
  by (simp add: json_Marshal_def info_name_def appendString_def htmlSafe_def ex_config_def)

lemma ex_sizes_A: "ex_sizes ex_A = [4, 12, 18]"
  by (simp add: ex_sizes_def ex_marshal_length) (simp add: ex_A_def ex_program_def ex_Marshal_a ex_config_def)

lemma ex_sizes_B: "ex_sizes ex_B = [5, 13, 20]"
  by (simp add: ex_sizes_def ex_marshal_length)
     (simp add: ex_B_def json_Marshal_def info_name_def appendString_def htmlSafe_def)

lemma ex_sizes_none: "ex_sizes ex_none = [0, 11, 13]"
  by (simp add: ex_sizes_def ex_marshal_length)
     (simp add: ex_none_def json_Marshal_def info_name_def appendString_def)

lemma ex_fresh_tracker: "tracker (registry ex_fresh) = {}"
  by (simp add: ex_fresh_def NewEbpfRegistry_def NewRegistry_def)

lemma ex_distinct_A_B: "distinct (ex_sizes ex_A @ ex_sizes ex_B)"
  by (simp add: ex_sizes_A ex_sizes_B)


lemma ex_distinct_none_A: "distinct (ex_sizes ex_none @ ex_sizes ex_A)"
  by (simp add: ex_sizes_A ex_sizes_none)

lemma ex_accent_Marshal:
  "fst (json_Marshal (EbpfConfig ex_accent))
     = [0x7B, 0x22, 0x69, 0x6E, 0x66, 0x6F, 0x22, 0x3A, 0x22, 0x68, 0xC3, 0xA9, 0x22, 0x7D]"
  by (simp add: ex_accent_def json_Marshal_def info_name_def appendString_def htmlSafe_def
      cont_def rune2_def RuneError_def)

lemma ex_used_held:
  "pushed_still_held (ex_lib ex_accent) (registry (ex_used (ex_lib ex_accent) ex_accent))
     (ex_remote (fst (json_Marshal (EbpfConfig ex_accent)))) ''r'' ex_accent"
proof -
  have f: "FromBytes (ex_lib ex_accent) = ex_dig"
    "manifest_Marshal (ex_lib ex_accent) = (\<lambda>_. [0x6D])"
    by (simp_all add: ex_lib_def ex_codec_def)
  have r: "staged_root (ex_lib ex_accent) ex_accent = ex_desc [] MediaTypeImageManifest [0x6D]"
    by (simp add: staged_root_eq f ex_desc_def)
  have p: "ProgramFileBytes ex_accent = ex_program" by (simp add: ex_accent_def)
  show ?thesis
    unfolding pushed_still_held_def f r p ex_accent_Marshal
    by (simp add: ex_remote_def Resolve_def ex_dig_eq ex_program_def ex_desc_def)
qed

section \<open>The claims\<close>

text \<open>
  Claim C1, as amended. For every program \<open>B\<close> and every string \<open>S\<close> that is
  well-formed UTF-8: when the copy of \<open>Push\<close> and the copy of \<open>Pull\<close> meet no
  network error, the library reads back the manifest it wrote, the digests of the three
  staged blobs (program, configuration, manifest) do not collide, and what the handle of
  the receiver has recorded as pushed is still held by the remote, the manifest under the
  reference (so for a handle that has pushed nothing), then pushing the package of
  \<open>B\<close> and \<open>S\<close> to a reference returns no error, and pulling the reference from
  the remote that the push left returns the package with the same program bytes and the
  same \<open>Info\<close>.
\<close>

theorem Push_Pull_roundtrip:
  assumes "manifest_Unmarshal L (manifest_Marshal L (staged_manifest L p))
             = Some (staged_manifest L p)"
    and "inj_on (FromBytes L) (set (staged_blobs L p))"
    and "Valid (Info (EbpfConfig p))"
    and "pushed_still_held L (registry e) r ref p"
  shows "\<exists>e' r'. Push L None e r ref (Some p) = Returns (e', r', None)
    \<and> Pull L None e' r' ref = Returns (e', Some p, None)"
proof -
  have "coerceUTF8 (Info (EbpfConfig p)) = Info (EbpfConfig p)"
    using assms(3) by (rule Valid_coerce)
  then have "\<lparr>ProgramFileBytes = ProgramFileBytes p,
      EbpfConfig = \<lparr>Info = coerceUTF8 (Info (EbpfConfig p))\<rparr>\<rparr> = p"
    by simp
  then show ?thesis using roundtrip [OF assms(1,2,4)] by simp
qed

text \<open>
  The theorem at the program \<open>ex_program\<close> and the string of the bytes 68, C3, A9 (an
  \<^verbatim>\<open>h\<close> and an e with an acute accent), at a handle that has pushed this package
  before and a remote that still holds it under the reference \<^verbatim>\<open>r\<close>.
\<close>

theorem Push_Pull_roundtrip_witness:
  "manifest_Unmarshal (ex_lib ex_accent)
      (manifest_Marshal (ex_lib ex_accent) (staged_manifest (ex_lib ex_accent) ex_accent))
     = Some (staged_manifest (ex_lib ex_accent) ex_accent)
   \<and> inj_on (FromBytes (ex_lib ex_accent)) (set (staged_blobs (ex_lib ex_accent) ex_accent))
   \<and> Valid (Info (EbpfConfig ex_accent))
   \<and> pushed_still_held (ex_lib ex_accent) (registry (ex_used (ex_lib ex_accent) ex_accent))
        (ex_remote (fst (json_Marshal (EbpfConfig ex_accent)))) ''r'' ex_accent
   \<and> (\<exists>e' r'.
         Push (ex_lib ex_accent) None (ex_used (ex_lib ex_accent) ex_accent)
           (ex_remote (fst (json_Marshal (EbpfConfig ex_accent)))) ''r'' (Some ex_accent)
           = Returns (e', r', None)
         \<and> Pull (ex_lib ex_accent) None e' r' ''r'' = Returns (e', Some ex_accent, None))"
proof -
  have h1: "manifest_Unmarshal (ex_lib ex_accent)
      (manifest_Marshal (ex_lib ex_accent) (staged_manifest (ex_lib ex_accent) ex_accent))
     = Some (staged_manifest (ex_lib ex_accent) ex_accent)"
    by (rule ex_lib_codec)
  have h2: "inj_on (FromBytes (ex_lib ex_accent)) (set (staged_blobs (ex_lib ex_accent) ex_accent))"
    by (rule ex_lib_inj) (simp_all add: ex_accent_def ex_program_def htmlSafe_def cont_def
        rune2_def RuneError_def)
  have h3: "Valid (Info (EbpfConfig ex_accent))"
    by (simp add: ex_accent_def cont_def rune2_def RuneError_def)
  show ?thesis
    using Push_Pull_roundtrip [OF h1 h2 h3 ex_used_held] h1 h2 h3 ex_used_held by blast
qed

text \<open>
  Claim C1 as the specification states it fails, in two ways. For every string: the string
  of the one byte FF is not well-formed UTF-8, Marshal writes it as the escape of U+FFFD,
  and the pull returns the three bytes EF, BF, BD in its place. For every push: a receiver
  that has pushed the package \<open>ex_A\<close> and then the package \<open>ex_B\<close> to the
  reference \<^verbatim>\<open>r\<close> sends nothing when it pushes \<open>ex_A\<close> again, returns no
  error, and the pull that follows returns \<open>ex_B\<close>.
\<close>

theorem Push_Pull_roundtrip_counterexample:
  "(\<exists>e' r' q.
      Push (ex_lib ex_ff) None ex_fresh ex_empty ''r'' (Some ex_ff) = Returns (e', r', None)
      \<and> Pull (ex_lib ex_ff) None e' r' ''r'' = Returns (e', Some q, None)
      \<and> ProgramFileBytes q = ProgramFileBytes ex_ff
      \<and> Info (EbpfConfig ex_ff) = [0xFF]
      \<and> Info (EbpfConfig q) = [0xEF, 0xBF, 0xBD])
   \<and> (\<exists>e1 r1 e2 r2.
      Push (ex_lib2 ex_A ex_B) None ex_fresh ex_empty ''r'' (Some ex_A) = Returns (e1, r1, None)
      \<and> Push (ex_lib2 ex_A ex_B) None e1 r1 ''r'' (Some ex_B) = Returns (e2, r2, None)
      \<and> Push (ex_lib2 ex_A ex_B) None e2 r2 ''r'' (Some ex_A) = Returns (e2, r2, None)
      \<and> Pull (ex_lib2 ex_A ex_B) None e2 r2 ''r'' = Returns (e2, Some ex_B, None)
      \<and> ProgramFileBytes ex_B \<noteq> ProgramFileBytes ex_A
      \<and> Info (EbpfConfig ex_B) \<noteq> Info (EbpfConfig ex_A))"
proof -
  have h2: "inj_on (FromBytes (ex_lib ex_ff)) (set (staged_blobs (ex_lib ex_ff) ex_ff))"
    by (rule ex_lib_inj) (simp_all add: ex_ff_def ex_program_def RuneError_def)
  have c: "coerceUTF8 (Info (EbpfConfig ex_ff)) = [0xEF, 0xBF, 0xBD]"
    by (simp add: ex_ff_def RuneError_def)
  have 1: "\<exists>e' r' q.
      Push (ex_lib ex_ff) None ex_fresh ex_empty ''r'' (Some ex_ff) = Returns (e', r', None)
      \<and> Pull (ex_lib ex_ff) None e' r' ''r'' = Returns (e', Some q, None)
      \<and> ProgramFileBytes q = ProgramFileBytes ex_ff
      \<and> Info (EbpfConfig ex_ff) = [0xFF]
      \<and> Info (EbpfConfig q) = [0xEF, 0xBF, 0xBD]"
    using roundtrip [OF ex_lib_codec h2 fresh_held [OF ex_fresh_tracker], of ex_empty "''r''"]
    unfolding c by (auto simp: ex_ff_def)
  have b: "\<lparr>ProgramFileBytes = ProgramFileBytes ex_B,
      EbpfConfig = \<lparr>Info = coerceUTF8 (Info (EbpfConfig ex_B))\<rparr>\<rparr> = ex_B"
    by (simp add: ex_B_def RuneError_def)
  have 2: "\<exists>e1 r1 e2 r2.
      Push (ex_lib2 ex_A ex_B) None ex_fresh ex_empty ''r'' (Some ex_A) = Returns (e1, r1, None)
      \<and> Push (ex_lib2 ex_A ex_B) None e1 r1 ''r'' (Some ex_B) = Returns (e2, r2, None)
      \<and> Push (ex_lib2 ex_A ex_B) None e2 r2 ''r'' (Some ex_A) = Returns (e2, r2, None)
      \<and> Pull (ex_lib2 ex_A ex_B) None e2 r2 ''r'' = Returns (e2, Some ex_B, None)"
    using stale_push [OF ex_lib2_codec(1) [OF ex_distinct_A_B] ex_lib2_inj(1) [OF ex_distinct_A_B]
        ex_lib2_codec(2) [OF ex_distinct_A_B] ex_lib2_inj(2) [OF ex_distinct_A_B]
        ex_fresh_tracker ex_lib2_keys [OF ex_distinct_A_B], of ex_empty "''r''"]
    unfolding b by blast
  have 3: "ProgramFileBytes ex_B \<noteq> ProgramFileBytes ex_A"
    "Info (EbpfConfig ex_B) \<noteq> Info (EbpfConfig ex_A)"
    by (simp_all add: ex_A_def ex_B_def ex_program_def)
  show ?thesis using 1 2 3 by blast
qed

text \<open>
  Claim C2. When the manifest fetched at a reference has no entry named
  \<^verbatim>\<open>program.o\<close>, or none named \<^verbatim>\<open>config.json\<close>, \<open>Pull\<close> returns: it does
  not panic. It returns no package and an error, and once the copy itself has succeeded
  the error is the lookup error.
\<close>

theorem Pull_missing_entry:
  assumes "entries L r ref = Some ds"
    and "\<not> has_entry ds ''program.o'' \<or> \<not> has_entry ds ''config.json''"
  shows "\<exists>err. Pull L net e r ref = Returns (e, None, Some err)
    \<and> (snd (snd (Copy_from_registry L net (registry e) r ref NewMemory)) = None
        \<longrightarrow> err = errorString ''could not find ebpf bytes in manifest'')"
proof (cases "Copy_from_registry L net (registry e) r ref NewMemory")
  case (fields h ms er)
  show ?thesis
  proof (cases er)
    case (Some err)
    then show ?thesis using fields Pull_copy_error [of L net e r ref h ms err] by simp
  next
    case None
    with fields have c: "Copy_from_registry L net (registry e) r ref NewMemory = (h, ms, None)"
      by simp
    from assms(2) have "nameMap ms ebpfFileName = None \<or> nameMap ms configName = None"
      using Copy_from_registry_nameMap [OF c assms(1)]
      by (auto simp: ebpfFileName_def configName_def)
    then have "Memory_GetByName ms ebpfFileName = None \<or> Memory_GetByName ms configName = None"
      using GetByName_no_name by metis
    then show ?thesis using c
      by (auto simp: Pull_after_copy [OF c] split: option.splits)
  qed
qed

text \<open>
  The theorem at a remote whose manifest names its configuration \<^verbatim>\<open>config.json\<close>
  and leaves its one layer without a name.
\<close>

theorem Pull_missing_entry_witness:
  "entries (ex_codec (ex_manifest configName [] ex_config)) (ex_remote ex_config) ''r''
     = Some [ex_desc configName configMediaType ex_config, ex_desc [] eBPFMediaType ex_program]
   \<and> \<not> has_entry [ex_desc configName configMediaType ex_config,
                   ex_desc [] eBPFMediaType ex_program] ''program.o''
   \<and> Pull (ex_codec (ex_manifest configName [] ex_config)) None ex_fresh (ex_remote ex_config) ''r''
       = Returns (ex_fresh, None, Some (errorString ''could not find ebpf bytes in manifest''))"
proof -
  let ?L = "ex_codec (ex_manifest configName [] ex_config)"
  let ?ds = "[ex_desc configName configMediaType ex_config, ex_desc [] eBPFMediaType ex_program]"
  have h1: "entries ?L (ex_remote ex_config) ''r'' = Some ?ds"
    by (simp add: ex_defs copy_defs)
  have h2: "\<not> has_entry ?ds ''program.o'' \<or> \<not> has_entry ?ds ''config.json''"
    by (simp add: ex_defs copy_defs)
  have h3: "snd (snd (Copy_from_registry ?L None (registry ex_fresh) (ex_remote ex_config) ''r''
      NewMemory)) = None"
    by (simp add: ex_defs copy_defs)
  have h4: "\<not> has_entry ?ds ''program.o''"
    by (simp add: ex_defs copy_defs)
  show ?thesis
    using Pull_missing_entry [OF h1 h2, of None ex_fresh] h1 h3 h4 by auto
qed

text \<open>
  Claim C3, as amended. When the copy has succeeded, the entry \<^verbatim>\<open>config.json\<close> is
  there and Unmarshal fails on its bytes, \<open>Pull\<close> returns no package, whatever
  Unmarshal had stored in the configuration before it failed, and an error: the error of
  Unmarshal when the entry \<^verbatim>\<open>program.o\<close> is there, and the lookup error when it is
  not, because \<open>Pull\<close> looks that entry up before it decodes.
\<close>

theorem Pull_malformed_config:
  assumes "Copy_from_registry L net (registry e) r ref NewMemory = (h, ms, None)"
    and "Memory_GetByName ms configName = Some (d2, configBytes)"
    and "json_Unmarshal configBytes \<lparr>Info = []\<rparr> = (cfg, Some err)"
  shows "Pull L net e r ref
    = Returns (e, None,
        Some (case Memory_GetByName ms ebpfFileName of
                None \<Rightarrow> errorString ''could not find ebpf bytes in manifest''
              | Some x \<Rightarrow> err))"
  using assms(2,3) by (simp add: Pull_after_copy [OF assms(1)] split: option.splits)

text \<open>
  The theorem at a remote whose configuration is \<^verbatim>\<open>{"info":"a","info":1}\<close> and whose
  manifest names both entries: Unmarshal stores \<^verbatim>\<open>a\<close> in \<open>Info\<close>, then meets the
  number and fails with a type error, which is the error of the pull.
\<close>

theorem Pull_malformed_config_witness:
  "json_Unmarshal ex_config_bad \<lparr>Info = []\<rparr> = (\<lparr>Info = [0x61]\<rparr>, Some UnmarshalTypeError)
   \<and> Memory_GetByName
        (fst (snd (Copy_from_registry (ex_codec (ex_manifest configName ebpfFileName ex_config_bad))
                     None (registry ex_fresh) (ex_remote ex_config_bad) ''r'' NewMemory)))
        configName
       = Some (ex_desc configName configMediaType ex_config_bad, ex_config_bad)
   \<and> Memory_GetByName
        (fst (snd (Copy_from_registry (ex_codec (ex_manifest configName ebpfFileName ex_config_bad))
                     None (registry ex_fresh) (ex_remote ex_config_bad) ''r'' NewMemory)))
        ebpfFileName
       = Some (ex_desc ebpfFileName eBPFMediaType ex_program, ex_program)
   \<and> Pull (ex_codec (ex_manifest configName ebpfFileName ex_config_bad)) None ex_fresh
        (ex_remote ex_config_bad) ''r''
       = Returns (ex_fresh, None, Some UnmarshalTypeError)"
proof -
  let ?L = "ex_codec (ex_manifest configName ebpfFileName ex_config_bad)"
  let ?ms = "fst (snd (Copy_from_registry ?L None (registry ex_fresh) (ex_remote ex_config_bad)
      ''r'' NewMemory))"
  have h1: "Copy_from_registry ?L None (registry ex_fresh) (ex_remote ex_config_bad) ''r'' NewMemory
      = (registry ex_fresh, ?ms, None)"
    by (simp add: ex_defs copy_defs)
  have h2: "Memory_GetByName ?ms ebpfFileName
      = Some (ex_desc ebpfFileName eBPFMediaType ex_program, ex_program)"
    by (simp add: ex_defs copy_defs)
  have h3: "Memory_GetByName ?ms configName
      = Some (ex_desc configName configMediaType ex_config_bad, ex_config_bad)"
    by (simp add: ex_defs copy_defs)
  show ?thesis
    using Pull_malformed_config [OF h1 h3 ex_Unmarshal_config_bad] ex_Unmarshal_config_bad h3
    unfolding h2 by simp
qed

text \<open>
  Claim C3 as the specification states it, for every reference whose configuration entry
  is malformed, fails: at a remote whose configuration is \<^verbatim>\<open>{"info":"a","info":1}\<close>
  and whose manifest names the configuration \<^verbatim>\<open>config.json\<close> and leaves its layer
  without a name, \<open>Pull\<close> returns the lookup error, which is not the error of
  Unmarshal.
\<close>

theorem Pull_malformed_config_counterexample:
  "json_Unmarshal ex_config_bad \<lparr>Info = []\<rparr> = (\<lparr>Info = [0x61]\<rparr>, Some UnmarshalTypeError)
   \<and> Memory_GetByName
        (fst (snd (Copy_from_registry (ex_codec (ex_manifest configName [] ex_config_bad))
                     None (registry ex_fresh) (ex_remote ex_config_bad) ''r'' NewMemory)))
        configName
       = Some (ex_desc configName configMediaType ex_config_bad, ex_config_bad)
   \<and> Pull (ex_codec (ex_manifest configName [] ex_config_bad)) None ex_fresh
        (ex_remote ex_config_bad) ''r''
       = Returns (ex_fresh, None, Some (errorString ''could not find ebpf bytes in manifest''))
   \<and> errorString ''could not find ebpf bytes in manifest'' \<noteq> UnmarshalTypeError"
proof -
  let ?L = "ex_codec (ex_manifest configName [] ex_config_bad)"
  let ?ms = "fst (snd (Copy_from_registry ?L None (registry ex_fresh) (ex_remote ex_config_bad)
      ''r'' NewMemory))"
  have h1: "Copy_from_registry ?L None (registry ex_fresh) (ex_remote ex_config_bad) ''r'' NewMemory
      = (registry ex_fresh, ?ms, None)"
    by (simp add: ex_defs copy_defs)
  have h2: "Memory_GetByName ?ms ebpfFileName = None"
    by (simp add: ex_defs copy_defs)
  have h3: "Memory_GetByName ?ms configName
      = Some (ex_desc configName configMediaType ex_config_bad, ex_config_bad)"
    by (simp add: ex_defs copy_defs)
  have "Pull ?L None ex_fresh (ex_remote ex_config_bad) ''r''
       = Returns (ex_fresh, None, Some (errorString ''could not find ebpf bytes in manifest''))"
    by (simp add: Pull_after_copy [OF h1] h2)
  then show ?thesis using ex_Unmarshal_config_bad h3 by simp
qed

text \<open>
  Claim C4. A push of a package reaches the copy with a store in which the entry named
  \<^verbatim>\<open>program.o\<close> has the media type \<^verbatim>\<open>binary/ebpf.solo.io.v1\<close> and the bytes of
  the program, and the entry named \<^verbatim>\<open>config.json\<close> has the media type
  \<^verbatim>\<open>application/ebpf.oci.image.config.v1+json\<close> and the bytes that Marshal wrote for
  the configuration; each descriptor carries its name as its title annotation. (The store
  keeps contents by digest, so the bytes are those of the entry when the digests of the
  staged blobs do not collide.)
\<close>

theorem Push_stages_named_entries:
  assumes "inj_on (FromBytes L) (set (staged_blobs L p))"
  shows "Push L net e r ref (Some p)
      = Returns (case Copy_to_registry L net (registry e) (fst (stage L ref p)) ref r of
                   (h, r', err) \<Rightarrow> (e\<lparr>registry := h\<rparr>, r', err))
    \<and> (\<exists>d. Memory_GetByName (fst (stage L ref p)) ''program.o'' = Some (d, ProgramFileBytes p)
          \<and> MediaType d = ''binary/ebpf.solo.io.v1''
          \<and> Annotations d = Some [''org.opencontainers.image.title'' \<mapsto> ''program.o''])
    \<and> (\<exists>d. Memory_GetByName (fst (stage L ref p)) ''config.json''
            = Some (d, fst (json_Marshal (EbpfConfig p)))
          \<and> MediaType d = ''application/ebpf.oci.image.config.v1+json''
          \<and> Annotations d = Some [''org.opencontainers.image.title'' \<mapsto> ''config.json''])"
proof -
  have blobs: "staged_blobs L p = [ProgramFileBytes p, fst (json_Marshal (EbpfConfig p)),
      manifest_Marshal L (staged_manifest L p)]"
    by (simp add: staged_blobs_def)
  note k = inj_on3 [OF assms [unfolded blobs]]
  have pd: "hd (Layers (staged_manifest L p))
      = \<lparr>MediaType = ''binary/ebpf.solo.io.v1'', Digest = FromBytes L (ProgramFileBytes p),
         Size = int (length (ProgramFileBytes p)),
         Annotations = Some [''org.opencontainers.image.title'' \<mapsto> ''program.o'']\<rparr>"
    by (simp add: staged_manifest_def Memory_Add_def Let_def ebpfFileName_def eBPFMediaType_def
        AnnotationTitle_def)
  have cd: "Config (staged_manifest L p)
      = \<lparr>MediaType = ''application/ebpf.oci.image.config.v1+json'',
         Digest = FromBytes L (fst (json_Marshal (EbpfConfig p))),
         Size = int (length (fst (json_Marshal (EbpfConfig p)))),
         Annotations = Some [''org.opencontainers.image.title'' \<mapsto> ''config.json'']\<rparr>"
    by (simp add: staged_manifest_def buildConfigDescriptor_def Let_def configName_def
        configMediaType_def AnnotationTitle_def)
  have g1: "Memory_GetByName (fst (stage L ref p)) ''program.o''
      = Some (hd (Layers (staged_manifest L p)), ProgramFileBytes p)"
    using k by (auto simp: stage_store Memory_GetByName_def ebpfFileName_def configName_def pd)
  have g2: "Memory_GetByName (fst (stage L ref p)) ''config.json''
      = Some (Config (staged_manifest L p), fst (json_Marshal (EbpfConfig p)))"
    using k by (auto simp: stage_store Memory_GetByName_def ebpfFileName_def configName_def cd)
  show ?thesis
    unfolding g1 g2 by (simp add: Push_Some pd cd)
qed

text \<open>The theorem at the program \<open>ex_program\<close> and the configuration with \<open>Info\<close> a.\<close>

theorem Push_stages_named_entries_witness:
  "inj_on (FromBytes (ex_lib \<lparr>ProgramFileBytes = ex_program, EbpfConfig = \<lparr>Info = [0x61]\<rparr>\<rparr>))
     (set (staged_blobs (ex_lib \<lparr>ProgramFileBytes = ex_program, EbpfConfig = \<lparr>Info = [0x61]\<rparr>\<rparr>)
             \<lparr>ProgramFileBytes = ex_program, EbpfConfig = \<lparr>Info = [0x61]\<rparr>\<rparr>))
   \<and> (\<exists>d. Memory_GetByName
             (fst (stage (ex_lib \<lparr>ProgramFileBytes = ex_program, EbpfConfig = \<lparr>Info = [0x61]\<rparr>\<rparr>)
                    ''r'' \<lparr>ProgramFileBytes = ex_program, EbpfConfig = \<lparr>Info = [0x61]\<rparr>\<rparr>))
             ''program.o'' = Some (d, ex_program)
          \<and> MediaType d = ''binary/ebpf.solo.io.v1'')
   \<and> (\<exists>d. Memory_GetByName
             (fst (stage (ex_lib \<lparr>ProgramFileBytes = ex_program, EbpfConfig = \<lparr>Info = [0x61]\<rparr>\<rparr>)
                    ''r'' \<lparr>ProgramFileBytes = ex_program, EbpfConfig = \<lparr>Info = [0x61]\<rparr>\<rparr>))
             ''config.json'' = Some (d, ex_config)
          \<and> MediaType d = ''application/ebpf.oci.image.config.v1+json'')"
proof -
  let ?p = "\<lparr>ProgramFileBytes = ex_program, EbpfConfig = \<lparr>Info = [0x61]\<rparr>\<rparr>"
  have h: "inj_on (FromBytes (ex_lib ?p)) (set (staged_blobs (ex_lib ?p) ?p))"
    by (rule ex_lib_inj) (simp_all add: ex_program_def htmlSafe_def)
  have m: "fst (json_Marshal (EbpfConfig ?p)) = ex_config"
    by (simp add: json_Marshal_def info_name_def appendString_def htmlSafe_def ex_config_def)
  show ?thesis
    using Push_stages_named_entries [OF h, of None ex_fresh ex_empty "''r''"] h unfolding m
    by auto
qed

text \<open>
  Claim C5, as amended. For a configuration with \<open>Info\<close> \<open>S\<close>, Marshal writes the
  bytes \<^verbatim>\<open>{"info":\<close>, a JSON string and \<^verbatim>\<open>}\<close>: one object with the one member
  \<^verbatim>\<open>info\<close>. The string denotes \<open>S\<close> when \<open>S\<close> is well-formed UTF-8, and in
  general \<open>S\<close> with every byte that starts no well-formed encoding replaced by U+FFFD.
  For every \<open>S\<close>, the descriptor that the push builds and stages under
  \<^verbatim>\<open>config.json\<close> has the digest of exactly the bytes that Marshal wrote, and their
  length as its size.
\<close>

theorem Push_config_json:
  "\<exists>body d.
     json_Marshal (EbpfConfig p)
       = ([0x7B, 0x22, 0x69, 0x6E, 0x66, 0x6F, 0x22, 0x3A, 0x22] @ body @ [0x22, 0x7D], None)
     \<and> checkValid (fst (json_Marshal (EbpfConfig p)))
         = Some (JObject [([0x69, 0x6E, 0x66, 0x6F], JString body)])
     \<and> unquoteBytes body = Some (coerceUTF8 (Info (EbpfConfig p)))
     \<and> (Valid (Info (EbpfConfig p)) \<longrightarrow> unquoteBytes body = Some (Info (EbpfConfig p)))
     \<and> buildConfigDescriptor L (fst (json_Marshal (EbpfConfig p))) None = (d, None)
     \<and> nameMap (fst (stage L ref p)) configName = Some d
     \<and> Digest d = FromBytes L (fst (json_Marshal (EbpfConfig p)))
     \<and> Size d = int (length (fst (json_Marshal (EbpfConfig p))))"
proof -
  let ?body = "appendString_loop (Info (EbpfConfig p))"
  let ?d = "fst (buildConfigDescriptor L (fst (json_Marshal (EbpfConfig p))) None)"
  have 1: "json_Marshal (EbpfConfig p)
      = ([0x7B, 0x22, 0x69, 0x6E, 0x66, 0x6F, 0x22, 0x3A, 0x22] @ ?body @ [0x22, 0x7D], None)"
    by (simp add: json_Marshal_def info_name_def appendString_def)
  have 2: "checkValid (fst (json_Marshal (EbpfConfig p)))
      = Some (JObject [([0x69, 0x6E, 0x66, 0x6F], JString ?body)])"
    using checkValid_Marshal [of "EbpfConfig p"] by (simp add: info_name_def)
  have 3: "unquoteBytes ?body = Some (coerceUTF8 (Info (EbpfConfig p)))"
    by (rule unquote_loop)
  have 4: "Valid (Info (EbpfConfig p)) \<longrightarrow> unquoteBytes ?body = Some (Info (EbpfConfig p))"
    using 3 by (simp add: Valid_coerce)
  have 5: "buildConfigDescriptor L (fst (json_Marshal (EbpfConfig p))) None = (?d, None)"
    by (simp add: buildConfigDescriptor_def Let_def)
  have 6: "nameMap (fst (stage L ref p)) configName = Some ?d"
    by (simp add: stage_store staged_manifest_def)
  have 7: "Digest ?d = FromBytes L (fst (json_Marshal (EbpfConfig p)))"
    "Size ?d = int (length (fst (json_Marshal (EbpfConfig p))))"
    by (simp_all add: buildConfigDescriptor_def Let_def)
  show ?thesis using 1 2 3 4 5 6 7 by blast
qed

text \<open>The theorem at the configuration with \<open>Info\<close> a, whose JSON form is \<open>ex_config\<close>.\<close>

theorem Push_config_json_witness:
  "Valid (Info (EbpfConfig \<lparr>ProgramFileBytes = ex_program, EbpfConfig = \<lparr>Info = [0x61]\<rparr>\<rparr>))
   \<and> fst (json_Marshal (EbpfConfig \<lparr>ProgramFileBytes = ex_program, EbpfConfig = \<lparr>Info = [0x61]\<rparr>\<rparr>))
       = ex_config
   \<and> (\<exists>body d.
         checkValid ex_config = Some (JObject [([0x69, 0x6E, 0x66, 0x6F], JString body)])
         \<and> unquoteBytes body = Some [0x61]
         \<and> nameMap (fst (stage ex_digest_only ''r''
                            \<lparr>ProgramFileBytes = ex_program, EbpfConfig = \<lparr>Info = [0x61]\<rparr>\<rparr>))
               configName = Some d
         \<and> Digest d = ex_dig ex_config
         \<and> Size d = 12)"
proof -
  let ?p = "\<lparr>ProgramFileBytes = ex_program, EbpfConfig = \<lparr>Info = [0x61]\<rparr>\<rparr>"
  have h: "Valid (Info (EbpfConfig ?p))" by (simp add: RuneError_def)
  have m: "fst (json_Marshal (EbpfConfig ?p)) = ex_config"
    by (simp add: json_Marshal_def info_name_def appendString_def htmlSafe_def ex_config_def)
  have i: "Info (EbpfConfig ?p) = [0x61]" by simp
  have f: "FromBytes ex_digest_only = ex_dig" by (simp add: ex_digest_only_def)
  have l: "int (length ex_config) = 12" by (simp add: ex_config_def)
  obtain body d where
    "checkValid (fst (json_Marshal (EbpfConfig ?p)))
       = Some (JObject [([0x69, 0x6E, 0x66, 0x6F], JString body)])"
    "Valid (Info (EbpfConfig ?p)) \<longrightarrow> unquoteBytes body = Some (Info (EbpfConfig ?p))"
    "nameMap (fst (stage ex_digest_only ''r'' ?p)) configName = Some d"
    "Digest d = FromBytes ex_digest_only (fst (json_Marshal (EbpfConfig ?p)))"
    "Size d = int (length (fst (json_Marshal (EbpfConfig ?p))))"
    using Push_config_json [of ?p ex_digest_only "''r''"] by blast
  then have "checkValid ex_config = Some (JObject [([0x69, 0x6E, 0x66, 0x6F], JString body)])
      \<and> unquoteBytes body = Some [0x61]
      \<and> nameMap (fst (stage ex_digest_only ''r'' ?p)) configName = Some d
      \<and> Digest d = ex_dig ex_config \<and> Size d = 12"
    using h unfolding m i f l by blast
  then show ?thesis using h m by blast
qed

text \<open>
  Claim C5 as the specification states it, for every \<open>Info\<close>, fails: for the string of
  the one byte FF, which is not well-formed, Marshal writes \<^verbatim>\<open>{"info":"\ufffd"}\<close>,
  an object whose member \<^verbatim>\<open>info\<close> is the string of U+FFFD, the three bytes EF, BF,
  BD.
\<close>

theorem Push_config_json_counterexample:
  "json_Marshal \<lparr>Info = [0xFF]\<rparr>
     = ([0x7B, 0x22, 0x69, 0x6E, 0x66, 0x6F, 0x22, 0x3A, 0x22,
         0x5C, 0x75, 0x66, 0x66, 0x66, 0x64, 0x22, 0x7D], None)
   \<and> json_Unmarshal [0x7B, 0x22, 0x69, 0x6E, 0x66, 0x6F, 0x22, 0x3A, 0x22,
                      0x5C, 0x75, 0x66, 0x66, 0x66, 0x64, 0x22, 0x7D] \<lparr>Info = []\<rparr>
       = (\<lparr>Info = [0xEF, 0xBF, 0xBD]\<rparr>, None)
   \<and> \<not> Valid [0xFF]"
proof -
  have m: "json_Marshal \<lparr>Info = [0xFF]\<rparr>
     = ([0x7B, 0x22, 0x69, 0x6E, 0x66, 0x6F, 0x22, 0x3A, 0x22,
         0x5C, 0x75, 0x66, 0x66, 0x66, 0x64, 0x22, 0x7D], None)"
    by (simp add: json_Marshal_def info_name_def appendString_def RuneError_def)
  have c: "coerceUTF8 [0xFF] = [0xEF, 0xBF, 0xBD]" by (simp add: RuneError_def)
  have u: "json_Unmarshal (fst (json_Marshal \<lparr>Info = [0xFF]\<rparr>)) \<lparr>Info = []\<rparr>
      = (\<lparr>Info = [0xEF, 0xBF, 0xBD]\<rparr>, None)"
    using Unmarshal_Marshal [of "\<lparr>Info = [0xFF]\<rparr>" "\<lparr>Info = []\<rparr>"] by (simp add: c)
  have v: "\<not> Valid [0xFF]" by (simp add: RuneError_def)
  show ?thesis using m u v by simp
qed

text \<open>
  Claim C6, as amended. When the copy of \<open>Push\<close> and the copy of \<open>Pull\<close> meet no
  network error, the library reads back the manifest it wrote, the digests of the three
  staged blobs do not collide, and what the handle of the receiver has recorded as pushed
  is still held by the remote, the manifest under the reference (so for a handle that has
  pushed nothing), a push of a package with no program bytes returns no error, and the
  pull that follows returns a package whose program is the empty sequence of bytes, with
  no error.
\<close>

theorem Push_Pull_empty_program:
  assumes "ProgramFileBytes p = []"
    and "manifest_Unmarshal L (manifest_Marshal L (staged_manifest L p))
           = Some (staged_manifest L p)"
    and "inj_on (FromBytes L) (set (staged_blobs L p))"
    and "pushed_still_held L (registry e) r ref p"
  shows "\<exists>e' r' cfg. Push L None e r ref (Some p) = Returns (e', r', None)
    \<and> Pull L None e' r' ref
        = Returns (e', Some \<lparr>ProgramFileBytes = [], EbpfConfig = cfg\<rparr>, None)"
  using roundtrip [OF assms(2,3,4)] assms(1) by auto

text \<open>
  The theorem at the package with no program bytes and an empty \<open>Info\<close>, at a handle
  that has pushed nothing and a remote that holds nothing.
\<close>

theorem Push_Pull_empty_program_witness:
  "ProgramFileBytes ex_none = []
   \<and> manifest_Unmarshal (ex_lib ex_none)
        (manifest_Marshal (ex_lib ex_none) (staged_manifest (ex_lib ex_none) ex_none))
       = Some (staged_manifest (ex_lib ex_none) ex_none)
   \<and> inj_on (FromBytes (ex_lib ex_none)) (set (staged_blobs (ex_lib ex_none) ex_none))
   \<and> pushed_still_held (ex_lib ex_none) (registry ex_fresh) ex_empty ''r'' ex_none
   \<and> (\<exists>e' r' cfg.
         Push (ex_lib ex_none) None ex_fresh ex_empty ''r'' (Some ex_none)
           = Returns (e', r', None)
         \<and> Pull (ex_lib ex_none) None e' r' ''r''
             = Returns (e', Some \<lparr>ProgramFileBytes = [], EbpfConfig = cfg\<rparr>, None))"
proof -
  have h1: "ProgramFileBytes ex_none = []" by (simp add: ex_none_def)
  have h2: "manifest_Unmarshal (ex_lib ex_none)
        (manifest_Marshal (ex_lib ex_none) (staged_manifest (ex_lib ex_none) ex_none))
       = Some (staged_manifest (ex_lib ex_none) ex_none)"
    by (rule ex_lib_codec)
  have h3: "inj_on (FromBytes (ex_lib ex_none)) (set (staged_blobs (ex_lib ex_none) ex_none))"
    by (rule ex_lib_inj) (simp_all add: ex_none_def)
  have h4: "pushed_still_held (ex_lib ex_none) (registry ex_fresh) ex_empty ''r'' ex_none"
    by (rule fresh_held [OF ex_fresh_tracker])
  show ?thesis
    using Push_Pull_empty_program [OF h1 h2 h3 h4] h1 h2 h3 h4 by blast
qed

text \<open>
  Claim C6 as the specification states it, for every push of an empty program whose copy
  succeeds, fails: a receiver that has pushed the package \<open>ex_none\<close>, with no program
  bytes, and then the package \<open>ex_A\<close> to the reference \<^verbatim>\<open>r\<close>, sends nothing when
  it pushes \<open>ex_none\<close> again and returns no error; the pull that follows returns the
  four bytes of the program of \<open>ex_A\<close>.
\<close>

theorem Push_Pull_empty_program_counterexample:
  "\<exists>e1 r1 e2 r2.
      ProgramFileBytes ex_none = []
      \<and> Push (ex_lib2 ex_none ex_A) None ex_fresh ex_empty ''r'' (Some ex_none)
          = Returns (e1, r1, None)
      \<and> Push (ex_lib2 ex_none ex_A) None e1 r1 ''r'' (Some ex_A) = Returns (e2, r2, None)
      \<and> Push (ex_lib2 ex_none ex_A) None e2 r2 ''r'' (Some ex_none) = Returns (e2, r2, None)
      \<and> Pull (ex_lib2 ex_none ex_A) None e2 r2 ''r''
          = Returns (e2, Some \<lparr>ProgramFileBytes = [0x7F, 0x45, 0x4C, 0x46],
                                EbpfConfig = \<lparr>Info = [0x61]\<rparr>\<rparr>, None)"
proof -
  have b: "\<lparr>ProgramFileBytes = ProgramFileBytes ex_A,
      EbpfConfig = \<lparr>Info = coerceUTF8 (Info (EbpfConfig ex_A))\<rparr>\<rparr>
      = \<lparr>ProgramFileBytes = [0x7F, 0x45, 0x4C, 0x46], EbpfConfig = \<lparr>Info = [0x61]\<rparr>\<rparr>"
    by (simp add: ex_A_def ex_program_def RuneError_def)
  have "\<exists>e1 r1 e2 r2.
      Push (ex_lib2 ex_none ex_A) None ex_fresh ex_empty ''r'' (Some ex_none)
          = Returns (e1, r1, None)
      \<and> Push (ex_lib2 ex_none ex_A) None e1 r1 ''r'' (Some ex_A) = Returns (e2, r2, None)
      \<and> Push (ex_lib2 ex_none ex_A) None e2 r2 ''r'' (Some ex_none) = Returns (e2, r2, None)
      \<and> Pull (ex_lib2 ex_none ex_A) None e2 r2 ''r''
          = Returns (e2, Some \<lparr>ProgramFileBytes = [0x7F, 0x45, 0x4C, 0x46],
                                EbpfConfig = \<lparr>Info = [0x61]\<rparr>\<rparr>, None)"
    using stale_push [OF ex_lib2_codec(1) [OF ex_distinct_none_A]
        ex_lib2_inj(1) [OF ex_distinct_none_A] ex_lib2_codec(2) [OF ex_distinct_none_A]
        ex_lib2_inj(2) [OF ex_distinct_none_A] ex_fresh_tracker
        ex_lib2_keys [OF ex_distinct_none_A], of ex_empty "''r''"]
    unfolding b by blast
  then show ?thesis by (simp add: ex_none_def)
qed




text \<open>
  Claim C8. The error that \<open>Pull\<close> returns when the entry \<^verbatim>\<open>config.json\<close> is
  missing and the entry \<^verbatim>\<open>program.o\<close> is there is the error that it returns when
  \<^verbatim>\<open>program.o\<close> is missing: the same value of \<^verbatim>\<open>errors.New\<close>, with the message
  \<^verbatim>\<open>could not find ebpf bytes in manifest\<close>.
\<close>

theorem Pull_missing_entry_same_message:
  assumes "Copy_from_registry L1 net1 (registry e) r1 ref1 NewMemory = (h1, ms1, None)"
    and "Memory_GetByName ms1 ebpfFileName = None"
    and "Copy_from_registry L2 net2 (registry e) r2 ref2 NewMemory = (h2, ms2, None)"
    and "Memory_GetByName ms2 ebpfFileName = Some x"
    and "Memory_GetByName ms2 configName = None"
  shows "Pull L1 net1 e r1 ref1
      = Returns (e, None, Some (errorString ''could not find ebpf bytes in manifest''))
    \<and> Pull L2 net2 e r2 ref2 = Pull L1 net1 e r1 ref1"
  using assms(2,4,5)
  by (cases x) (simp add: Pull_after_copy [OF assms(1)] Pull_after_copy [OF assms(3)])

text \<open>
  The theorem at a remote whose manifest leaves its layer without a name, and at the same
  remote with a manifest that leaves its configuration without a name.
\<close>

theorem Pull_missing_entry_same_message_witness:
  "Pull (ex_codec (ex_manifest configName [] ex_config)) None ex_fresh (ex_remote ex_config) ''r''
     = Returns (ex_fresh, None, Some (errorString ''could not find ebpf bytes in manifest''))
   \<and> Pull (ex_codec (ex_manifest [] ebpfFileName ex_config)) None ex_fresh (ex_remote ex_config) ''r''
       = Pull (ex_codec (ex_manifest configName [] ex_config)) None ex_fresh
           (ex_remote ex_config) ''r''
   \<and> Memory_GetByName
        (fst (snd (Copy_from_registry (ex_codec (ex_manifest configName [] ex_config)) None
                (registry ex_fresh) (ex_remote ex_config) ''r'' NewMemory))) ebpfFileName = None
   \<and> Memory_GetByName
        (fst (snd (Copy_from_registry (ex_codec (ex_manifest [] ebpfFileName ex_config)) None
                (registry ex_fresh) (ex_remote ex_config) ''r'' NewMemory))) ebpfFileName
       = Some (ex_desc ebpfFileName eBPFMediaType ex_program, ex_program)
   \<and> Memory_GetByName
        (fst (snd (Copy_from_registry (ex_codec (ex_manifest [] ebpfFileName ex_config)) None
                (registry ex_fresh) (ex_remote ex_config) ''r'' NewMemory))) configName = None"
proof -
  let ?L1 = "ex_codec (ex_manifest configName [] ex_config)"
  let ?L2 = "ex_codec (ex_manifest [] ebpfFileName ex_config)"
  let ?ms1 = "fst (snd (Copy_from_registry ?L1 None (registry ex_fresh) (ex_remote ex_config) ''r''
      NewMemory))"
  let ?ms2 = "fst (snd (Copy_from_registry ?L2 None (registry ex_fresh) (ex_remote ex_config) ''r''
      NewMemory))"
  have h1: "Copy_from_registry ?L1 None (registry ex_fresh) (ex_remote ex_config) ''r'' NewMemory
      = (registry ex_fresh, ?ms1, None)"
    by (simp add: ex_defs copy_defs)
  have h2: "Memory_GetByName ?ms1 ebpfFileName = None"
    by (simp add: ex_defs copy_defs)
  have h3: "Copy_from_registry ?L2 None (registry ex_fresh) (ex_remote ex_config) ''r'' NewMemory
      = (registry ex_fresh, ?ms2, None)"
    by (simp add: ex_defs copy_defs)
  have h4: "Memory_GetByName ?ms2 ebpfFileName
      = Some (ex_desc ebpfFileName eBPFMediaType ex_program, ex_program)"
    by (simp add: ex_defs copy_defs)
  have h5: "Memory_GetByName ?ms2 configName = None"
    by (simp add: ex_defs copy_defs)
  show ?thesis
    using Pull_missing_entry_same_message [OF h1 h2 h3 h4 h5] h2 h4 h5 by simp
qed

text \<open>
  Claim C9. \<open>buildConfigDescriptor\<close> returns a descriptor and no error for every
  sequence of bytes and every annotations map, \<^verbatim>\<open>nil\<close> or not; so a push of a
  package never leaves through the branch that guards the call, and reaches the copy.
\<close>

theorem buildConfigDescriptor_total:
  "(\<exists>config. buildConfigDescriptor L byt annotations = (config, None))
   \<and> (\<exists>config. buildConfigDescriptor L byt None = (config, None))
   \<and> Push L net e r ref (Some p)
       = Returns (case Copy_to_registry L net (registry e) (fst (stage L ref p)) ref r of
                    (h, r', err) \<Rightarrow> (e\<lparr>registry := h\<rparr>, r', err))"
  by (simp add: buildConfigDescriptor_def Let_def Push_Some)

text \<open>
  Claim C10. \<open>Push\<close> with the \<^verbatim>\<open>nil\<close> package panics, whatever the library, the
  network, the receiver, the remote and the reference; with a package it returns.
\<close>

theorem Push_nil_panics:
  "Push L net e r ref None = Panics
   \<and> (\<exists>x. Push L' net' e' r' ref' (Some p) = Returns x)"
proof
  show "Push L net e r ref None = Panics"
    by (simp add: Push_def)
  show "\<exists>x. Push L' net' e' r' ref' (Some p) = Returns x"
    by (rule exI) (rule Push_Some)
qed

end
